theory Spec2Isabelle
  imports Complex_Main
begin

section \<open>JavaScript values\<close>

text \<open>
  The x axis of the visualization library (\<^verbatim>\<open>components/vislib/lib/x_axis.js\<close>) is
  embedded function by function.  A JavaScript number is \<open>NaN\<close>, an infinity or a finite
  number, and a finite number is a real.  Additions, multiplications and comparisons of
  pixel values are taken exactly.  truncateLabel, which floors a quotient, is the one
  place where a rounding moves a result by a whole character: its division and its
  subtraction are the engine's, see \<open>env\<close> below.
\<close>

datatype jsnum = NaN | NegInfinity | PosInfinity | Num real

datatype jsval = Undefined | Null | Boolean bool | Number jsnum | Str string

text \<open>Truthiness of a primitive, as \<^verbatim>\<open>!v\<close> reads it.\<close>

fun truthy :: "jsval \<Rightarrow> bool" where
  "truthy Undefined = False"
| "truthy Null = False"
| "truthy (Boolean b) = b"
| "truthy (Number NaN) = False"
| "truthy (Number NegInfinity) = True"
| "truthy (Number PosInfinity) = True"
| "truthy (Number (Num x)) = (x \<noteq> 0)"
| "truthy (Str s) = (s \<noteq> [])"

text \<open>\<^verbatim>\<open>_.isNaN(v)\<close>: true for the number NaN only.\<close>

fun lodash_isNaN :: "jsval \<Rightarrow> bool" where
  "lodash_isNaN (Number NaN) = True"
| "lodash_isNaN v = False"

text \<open>\<^verbatim>\<open>a + c\<close> and \<^verbatim>\<open>a > c\<close> for a finite constant \<open>c\<close>.\<close>

fun jsnum_add :: "jsnum \<Rightarrow> real \<Rightarrow> jsnum" where
  "jsnum_add NaN c = NaN"
| "jsnum_add NegInfinity c = NegInfinity"
| "jsnum_add PosInfinity c = PosInfinity"
| "jsnum_add (Num x) c = Num (x + c)"

fun jsnum_gt :: "jsnum \<Rightarrow> real \<Rightarrow> bool" where
  "jsnum_gt NaN c = False"
| "jsnum_gt NegInfinity c = False"
| "jsnum_gt PosInfinity c = True"
| "jsnum_gt (Num x) c = (x > c)"

text \<open>\<^verbatim>\<open>_.max(lengths)\<close>: \<open>-Infinity\<close> on the empty array.\<close>

fun lodash_max :: "real list \<Rightarrow> jsnum" where
  "lodash_max [] = NegInfinity"
| "lodash_max (x # xs) = Num (fold max xs x)"

section \<open>Data model\<close>

text \<open>
  The ordering descriptor \<^verbatim>\<open>ordered\<close>: \<open>None\<close> stands for a falsy value (absent,
  \<^verbatim>\<open>undefined\<close>, \<^verbatim>\<open>null\<close>, \<^verbatim>\<open>false\<close>), \<open>Some ob\<close> for an object; \<open>date ob\<close> is the
  truthiness of \<^verbatim>\<open>ordered.date\<close>.
\<close>

record ordered_info =
  date :: bool
  min_o :: jsval
  max_o :: jsval

text \<open>
  A d3 scale, kept symbolically: which constructor built it, the domain it was given and
  the range it was given.  What d3 computes from a scale (positions, ticks, band width) is
  a capability of the environment, see \<open>env\<close> below.
\<close>

datatype scale_kind = TimeUtc | Ordinal

datatype range_spec = RangeDefault | Range real real | RangeBands real real real

record scale =
  kind :: scale_kind
  domain_s :: "jsval list"
  range_s :: range_spec

text \<open>What \<^verbatim>\<open>this.xScale\<close> holds: a primitive, or a d3 scale (a function object).\<close>

datatype xscale_value = Primitive jsval | ScaleFunction scale

record axis =
  scale_a :: xscale_value
  ticks_a :: nat
  tickFormat :: "jsval \<Rightarrow> string"
  orient :: string

text \<open>The attribute bag \<^verbatim>\<open>_attr\<close>, with the two fields this file writes.\<close>

record attr =
  isRotated :: bool
  xAxisLabelHt :: "jsnum option"

text \<open>
  The part of the document the axis draws into.  A tick is the \<^verbatim>\<open>g.tick\<close> group with its
  text node; an svg holds the ticks of its \<^verbatim>\<open>g.x.axis\<close> group; a panel is one
  \<^verbatim>\<open>.x-axis-div\<close>; the wrapper is \<^verbatim>\<open>.x-axis-div-wrapper\<close>.  The sizes are what jQuery
  measures when a pass reads them: \<open>wrapper_width\<close> and each panel's \<open>div_height\<close> are read
  once in a pass, \<open>div_width\<close> by the collision filter.  They are inputs of a pass; the
  browser may measure other sizes before the next one, so nothing is claimed from their
  being the same after a pass.
\<close>

record tick =
  datum :: jsval
  label :: string
  text_anchor :: string
  dx :: "string option"
  dy :: "string option"
  transform :: "string option"

record svg =
  svg_width :: real
  svg_height :: real
  g_ticks :: "tick list"

record panel =
  div_width :: real
  div_height :: real
  children :: "svg list"

record dom =
  wrapper_width :: real
  panels :: "panel list"

record xaxis =
  el :: dom
  xValues :: "jsval list"
  ordered :: "ordered_info option"
  xAxisFormatter :: "jsval \<Rightarrow> string"
  attr :: attr
  xScale :: xscale_value
  xAxis :: "axis option"

text \<open>
  The collaborators the file calls but does not define: the error handler mixin's
  validation (\<open>True\<close> when it throws), d3's tick choice for a time scale, d3's scale
  application, d3's band width, the browser's bounding boxes of a tick's text node and
  of a tick's group, and the engine's double precision division and subtraction.
\<close>

record env =
  validateWidthandHeight :: "real \<Rightarrow> real \<Rightarrow> bool"
  d3_time_ticks :: "scale \<Rightarrow> nat \<Rightarrow> jsval list"
  d3_apply :: "scale \<Rightarrow> jsval \<Rightarrow> jsnum"
  d3_rangeBand :: "scale \<Rightarrow> real"
  text_bbox_width :: "tick \<Rightarrow> real"
  tick_bbox_width :: "tick \<Rightarrow> real"
  js_div :: "jsnum \<Rightarrow> jsnum \<Rightarrow> jsnum"
  js_sub :: "jsnum \<Rightarrow> jsnum \<Rightarrow> jsnum"

datatype error = DimensionError | XScaleError | TypeError

text \<open>
  A call either returns or throws; a throw leaves the state as mutated so far, so both
  carry the state.
\<close>

datatype 'a outcome = Returned 'a | Threw error 'a

fun state_of :: "'a outcome \<Rightarrow> 'a" where
  "state_of (Returned s) = s"
| "state_of (Threw e s) = s"

fun returned :: "'a outcome \<Rightarrow> bool" where
  "returned (Returned s) = True"
| "returned (Threw e s) = False"

fun thrown :: "'a outcome \<Rightarrow> error option" where
  "thrown (Returned s) = None"
| "thrown (Threw e s) = Some e"

section \<open>Scale construction\<close>

definition d3_time_scale_utc :: scale where
  "d3_time_scale_utc =
     \<lparr>kind = TimeUtc, domain_s = [Number (Num 0), Number (Num 1)], range_s = Range 0 1\<rparr>"

definition d3_scale_ordinal :: scale where
  "d3_scale_ordinal = \<lparr>kind = Ordinal, domain_s = [], range_s = RangeDefault\<rparr>"

text \<open>An ordinal domain keeps the first occurrence of each value.\<close>

fun uniq :: "'a list \<Rightarrow> 'a list" where
  "uniq [] = []"
| "uniq (x # xs) = x # uniq (filter (\<lambda>y. y \<noteq> x) xs)"

definition d3_domain :: "scale \<Rightarrow> jsval list \<Rightarrow> scale" where
  "d3_domain s xs = s\<lparr>domain_s := (case kind s of Ordinal \<Rightarrow> uniq xs | TimeUtc \<Rightarrow> xs)\<rparr>"

definition d3_range :: "scale \<Rightarrow> real \<Rightarrow> real \<Rightarrow> scale" where
  "d3_range s lo hi = s\<lparr>range_s := Range lo hi\<rparr>"

definition d3_rangeBands :: "scale \<Rightarrow> real \<Rightarrow> real \<Rightarrow> real \<Rightarrow> scale" where
  "d3_rangeBands s lo hi padding = s\<lparr>range_s := RangeBands lo hi padding\<rparr>"

text \<open>The test \<^verbatim>\<open>ordered && ordered.date\<close> of getScale, getDomain and getRange.\<close>

definition ordered_and_date :: "ordered_info option \<Rightarrow> bool" where
  "ordered_and_date ord = (case ord of None \<Rightarrow> False | Some ob \<Rightarrow> date ob)"

definition getScale :: "ordered_info option \<Rightarrow> scale" where
  "getScale ord =
     (if ordered_and_date ord then d3_time_scale_utc else d3_scale_ordinal)"

definition getTimeDomain :: "scale \<Rightarrow> ordered_info \<Rightarrow> scale" where
  "getTimeDomain scale ob = d3_domain scale [min_o ob, max_o ob]"

definition getOrdinalDomain :: "scale \<Rightarrow> jsval list \<Rightarrow> scale" where
  "getOrdinalDomain scale xs = d3_domain scale xs"

definition getDomain :: "xaxis \<Rightarrow> scale \<Rightarrow> ordered_info option \<Rightarrow> scale" where
  "getDomain self scale ord =
     (case ord of
        None \<Rightarrow> getOrdinalDomain scale (xValues self)
      | Some ob \<Rightarrow>
          if date ob then getTimeDomain scale ob
          else getOrdinalDomain scale (xValues self))"

definition getRange :: "scale \<Rightarrow> ordered_info option \<Rightarrow> real \<Rightarrow> scale" where
  "getRange scale ord width =
     (if ordered_and_date ord then d3_range scale 0 width
      else d3_rangeBands scale 0 width (1 / 10))"

definition getXScale :: "xaxis \<Rightarrow> ordered_info option \<Rightarrow> real \<Rightarrow> scale" where
  "getXScale self ord width =
     (let scale = getScale ord;
          domain = getDomain self scale ord
      in getRange domain ord width)"

text \<open>The guard of getXAxis: \<^verbatim>\<open>!this.xScale || _.isNaN(this.xScale)\<close>.\<close>

fun xScale_invalid :: "xscale_value \<Rightarrow> bool" where
  "xScale_invalid (Primitive v) = (\<not> truthy v \<or> lodash_isNaN v)"
| "xScale_invalid (ScaleFunction s) = False"

definition getXAxis :: "xaxis \<Rightarrow> real \<Rightarrow> xaxis outcome" where
  "getXAxis self width =
     (let self1 = self\<lparr>xScale := ScaleFunction (getXScale self (ordered self) width)\<rparr>
      in if xScale_invalid (xScale self1) then Threw XScaleError self1
         else Returned (self1\<lparr>xAxis :=
                Some \<lparr>scale_a = xScale self1, ticks_a = 10,
                      tickFormat = xAxisFormatter self1, orient = ''bottom''\<rparr>\<rparr>))"

section \<open>Label truncation\<close>

text \<open>
  The loop of truncateLabel: \<^verbatim>\<open>str[endChar - 1]\<close> is a character only for an index inside
  the string, and \<^verbatim>\<open>undefined\<close> (which ends the loop) elsewhere.
\<close>

definition trim_char :: "char \<Rightarrow> bool" where
  "trim_char c = (c = CHR '' '' \<or> c = CHR ''-'' \<or> c = CHR '','')"

definition trim_at :: "string \<Rightarrow> int \<Rightarrow> bool" where
  "trim_at str i = (0 \<le> i \<and> i < int (length str) \<and> trim_char (str ! nat i))"

function trim_endChar :: "string \<Rightarrow> int \<Rightarrow> int" where
  "trim_endChar str endChar =
     (if trim_at str (endChar - 1) then trim_endChar str (endChar - 1) else endChar)"
  by pat_completeness auto
termination
  by (relation "measure (\<lambda>(str, endChar). nat endChar)") (auto simp: trim_at_def)

declare trim_endChar.simps [simp del]

text \<open>
  \<^verbatim>\<open>Math.floor\<close> is exact.  The loop runs on a whole number only (any other index reads
  \<^verbatim>\<open>undefined\<close>), and its own \<^verbatim>\<open>endChar - 1\<close> is exact on the whole numbers inside a
  string.  \<^verbatim>\<open>str.substr(0, n)\<close> is empty for \<open>n \<le> 0\<close> and for \<open>NaN\<close>, and the whole string
  for \<open>n\<close> past its end.
\<close>

fun js_floor :: "jsnum \<Rightarrow> jsnum" where
  "js_floor (Num x) = Num (of_int \<lfloor>x\<rfloor>)"
| "js_floor v = v"

fun trim_loop :: "string \<Rightarrow> jsnum \<Rightarrow> jsnum" where
  "trim_loop str (Num e) =
     (if e = of_int \<lfloor>e\<rfloor> then Num (of_int (trim_endChar str \<lfloor>e\<rfloor>)) else Num e)"
| "trim_loop str v = v"

fun substr0 :: "string \<Rightarrow> jsnum \<Rightarrow> string" where
  "substr0 str (Num n) = take (nat \<lfloor>n\<rfloor>) str"
| "substr0 str PosInfinity = str"
| "substr0 str v = []"

text \<open>
  truncateLabel reads the node's text and its bounding box; \<^verbatim>\<open>width / chars\<close>,
  \<^verbatim>\<open>size / pxPerChar\<close> and the subtraction of \<^verbatim>\<open>ellipsesPad\<close> are the engine's.
\<close>

definition truncateLabel :: "env \<Rightarrow> tick \<Rightarrow> real \<Rightarrow> string" where
  "truncateLabel env text sz =
     (let str = label text;
          width = text_bbox_width env text;
          chars = length str;
          pxPerChar = js_div env (Num width) (Num (real chars));
          ellipsesPad = 4
      in if width > sz then
           (let endChar = js_floor (js_sub env (js_div env (Num sz) pxPerChar) (Num ellipsesPad));
                endChar1 = trim_loop str endChar
            in substr0 str endChar1 @ ''...'')
         else str)"

text \<open>
  The number \<^verbatim>\<open>(size / pxPerChar) - ellipsesPad\<close> as the engine computes it, and the spec's
  wording of truncateLabel: there the reserve of four is taken off after the floor.
\<close>

definition endChar_estimate :: "env \<Rightarrow> tick \<Rightarrow> real \<Rightarrow> jsnum" where
  "endChar_estimate env text sz =
     js_sub env
       (js_div env (Num sz)
          (js_div env (Num (text_bbox_width env text)) (Num (real (length (label text))))))
       (Num 4)"



definition estimate_within :: "real \<Rightarrow> env \<Rightarrow> tick \<Rightarrow> real \<Rightarrow> bool" where
  "estimate_within d env text sz =
     (case endChar_estimate env text sz of
        Num y \<Rightarrow>
          y \<le> sz / (text_bbox_width env text / real (length (label text))) - 4 + d
      | PosInfinity \<Rightarrow> False
      | _ \<Rightarrow> True)"

text \<open>
  Rounding to nearest without overflow or underflow: each of the three operations is
  within the relative error \<open>2 ^ -53\<close> of its exact value.
\<close>

definition rounds :: "real \<Rightarrow> real \<Rightarrow> bool" where
  "rounds x y = (\<bar>y - x\<bar> \<le> \<bar>x\<bar> / 2 ^ 53)"

definition rounds_to_nearest :: "env \<Rightarrow> tick \<Rightarrow> real \<Rightarrow> bool" where
  "rounds_to_nearest env text sz =
     (case js_div env (Num (text_bbox_width env text)) (Num (real (length (label text)))) of
        Num p \<Rightarrow>
          rounds (text_bbox_width env text / real (length (label text))) p
          \<and> (case js_div env (Num sz) (Num p) of
                Num q \<Rightarrow>
                  rounds (sz / p) q
                  \<and> (case js_sub env (Num q) (Num 4) of
                        Num r \<Rightarrow> rounds (q - 4) r
                      | _ \<Rightarrow> False)
              | _ \<Rightarrow> False)
      | _ \<Rightarrow> False)"

section \<open>Label strategies\<close>

text \<open>
  rotateAxisLabels.  \<^verbatim>\<open>self.xScale.rangeBand()\<close> is evaluated first, and is a type error on
  anything but an ordinal scale.  The inner function measures every tick text of the
  panel, writes \<^verbatim>\<open>xAxisLabelHt\<close> and \<^verbatim>\<open>isRotated\<close>, and only when rotated rewrites the
  labels and the height of the panel's first svg.
\<close>

definition rangeBand_call :: "env \<Rightarrow> xscale_value \<Rightarrow> real option" where
  "rangeBand_call env v =
     (case v of
        Primitive p \<Rightarrow> None
      | ScaleFunction s \<Rightarrow>
          (case kind s of TimeUtc \<Rightarrow> None | Ordinal \<Rightarrow> Some (d3_rangeBand env s)))"

definition panel_ticks :: "panel \<Rightarrow> tick list" where
  "panel_ticks p = concat (map g_ticks (children p))"

definition rotate_tick :: "env \<Rightarrow> real \<Rightarrow> tick \<Rightarrow> tick" where
  "rotate_tick env ht t =
     t\<lparr>label := truncateLabel env t ht,
       text_anchor := ''end'',
       dx := Some ''-.8em'',
       dy := Some ''-.60em'',
       transform := Some ''rotate(-90)''\<rparr>"

fun set_first_height :: "real \<Rightarrow> svg list \<Rightarrow> svg list" where
  "set_first_height ht [] = []"
| "set_first_height ht (v # vs) = v\<lparr>svg_height := ht\<rparr> # vs"

definition rotate_panel :: "env \<Rightarrow> real \<Rightarrow> panel \<Rightarrow> panel" where
  "rotate_panel env ht p =
     p\<lparr>children :=
         set_first_height ht
           (map (\<lambda>v. v\<lparr>g_ticks := map (rotate_tick env ht) (g_ticks v)\<rparr>) (children p))\<rparr>"

definition rotateAxisLabels :: "env \<Rightarrow> xaxis \<Rightarrow> panel \<Rightarrow> (xaxis \<times> panel) outcome" where
  "rotateAxisLabels env self p =
     (case rangeBand_call env (xScale self) of
        None \<Rightarrow> Threw TypeError (self, p)
      | Some barWidth \<Rightarrow>
          let maxRotatedLength = 180;
              xAxisPadding = 15;
              self1 = self\<lparr>attr := (attr self)\<lparr>isRotated := False\<rparr>\<rparr>;
              lengths = map (text_bbox_width env) (panel_ticks p);
              len = lodash_max lengths;
              self2 = self1\<lparr>attr := (attr self1)\<lparr>xAxisLabelHt := Some (jsnum_add len xAxisPadding)\<rparr>\<rparr>;
              self3 = (if jsnum_gt len barWidth
                       then self2\<lparr>attr := (attr self2)\<lparr>isRotated := True\<rparr>\<rparr> else self2);
              self4 = (if jsnum_gt len maxRotatedLength
                       then self3\<lparr>attr := (attr self3)\<lparr>xAxisLabelHt := Some (Num maxRotatedLength)\<rparr>\<rparr>
                       else self3)
          in if isRotated (attr self4) then
               (case xAxisLabelHt (attr self4) of
                  Some (Num ht) \<Rightarrow> Returned (self4, rotate_panel env ht p)
                | _ \<Rightarrow> Returned (self4, p))
             else Returned (self4, p))"

text \<open>
  filterAxisLabels.  The callback of \<^verbatim>\<open>.text(function (d) ...)\<close> runs once per tick, in
  document order, with \<^verbatim>\<open>startX\<close> shared by the whole panel: it returns the new
  \<^verbatim>\<open>startX\<close> and the tick with its formatted label, or \<open>None\<close> when it removes the tick's
  group.  A comparison with a position that is not a finite number is false.
\<close>

definition first_div_width :: "dom \<Rightarrow> real" where
  "first_div_width d = (case panels d of [] \<Rightarrow> 0 | p # ps \<Rightarrow> div_width p)"

definition filter_callback ::
  "env \<Rightarrow> xaxis \<Rightarrow> scale \<Rightarrow> real \<Rightarrow> tick \<Rightarrow> real \<times> tick option" where
  "filter_callback env self s startX t =
     (let padding = 11 / 10;
          myX = d3_apply env s (datum t);
          myWidth = tick_bbox_width env t * padding;
          halfWidth = myWidth / 2;
          maxW = first_div_width (el self)
      in case myX of
           Num x \<Rightarrow>
             if (startX + halfWidth) < x \<and> maxW > (x + halfWidth)
             then (x + halfWidth, Some (t\<lparr>label := xAxisFormatter self (datum t)\<rparr>))
             else (startX, None)
         | _ \<Rightarrow> (startX, None))"

fun filter_each ::
  "env \<Rightarrow> xaxis \<Rightarrow> scale \<Rightarrow> real \<Rightarrow> tick list \<Rightarrow> real \<times> tick option list" where
  "filter_each env self s startX [] = (startX, [])"
| "filter_each env self s startX (t # ts) =
     (case filter_callback env self s startX t of
        (startX1, m) \<Rightarrow>
          (case filter_each env self s startX1 ts of
             (startX2, ms) \<Rightarrow> (startX2, m # ms)))"

definition surviving :: "tick option list \<Rightarrow> tick list" where
  "surviving ms = List.map_filter (\<lambda>m. m) ms"

fun filter_svgs ::
  "env \<Rightarrow> xaxis \<Rightarrow> scale \<Rightarrow> real \<Rightarrow> svg list \<Rightarrow> real \<times> svg list" where
  "filter_svgs env self s startX [] = (startX, [])"
| "filter_svgs env self s startX (v # vs) =
     (case filter_each env self s startX (g_ticks v) of
        (startX1, ms) \<Rightarrow>
          (case filter_svgs env self s startX1 vs of
             (startX2, vs1) \<Rightarrow> (startX2, v\<lparr>g_ticks := surviving ms\<rparr> # vs1)))"

definition filterAxisLabels :: "env \<Rightarrow> xaxis \<Rightarrow> panel \<Rightarrow> (xaxis \<times> panel) outcome" where
  "filterAxisLabels env self p =
     (case xScale self of
        Primitive v \<Rightarrow>
          if panel_ticks p = [] then Returned (self, p) else Threw TypeError (self, p)
      | ScaleFunction s \<Rightarrow>
          Returned (self, p\<lparr>children := snd (filter_svgs env self s 0 (children p))\<rparr>))"

text \<open>
  filterOrRotate.  Its test is \<^verbatim>\<open>!ordered || ordered === undefined\<close>.  After the panels it
  calls updateXaxisHeight and fitTitles, which write the spacer block and the title
  surfaces of the enclosing \<^verbatim>\<open>.vis-wrapper\<close> only; those elements are outside the
  state kept here.
\<close>

definition not_ordered :: "ordered_info option \<Rightarrow> bool" where
  "not_ordered ord = (case ord of None \<Rightarrow> True | Some ob \<Rightarrow> False)"

fun filterOrRotate_each ::
  "env \<Rightarrow> xaxis \<Rightarrow> panel list \<Rightarrow> (xaxis \<times> panel list) outcome" where
  "filterOrRotate_each env self [] = Returned (self, [])"
| "filterOrRotate_each env self (p # ps) =
     (case (if not_ordered (ordered self) then rotateAxisLabels env self p
            else filterAxisLabels env self p) of
        Threw e (self1, p1) \<Rightarrow> Threw e (self1, p1 # ps)
      | Returned (self1, p1) \<Rightarrow>
          (case filterOrRotate_each env self1 ps of
             Threw e (self2, ps1) \<Rightarrow> Threw e (self2, p1 # ps1)
           | Returned (self2, ps1) \<Rightarrow> Returned (self2, p1 # ps1)))"

definition with_panels :: "xaxis \<Rightarrow> panel list \<Rightarrow> xaxis" where
  "with_panels self ps = self\<lparr>el := (el self)\<lparr>panels := ps\<rparr>\<rparr>"

definition filterOrRotate :: "env \<Rightarrow> xaxis \<Rightarrow> xaxis outcome" where
  "filterOrRotate env self =
     (case filterOrRotate_each env self (panels (el self)) of
        Threw e (self1, ps) \<Rightarrow> Threw e (with_panels self1 ps)
      | Returned (self1, ps) \<Rightarrow> Returned (with_panels self1 ps))"

section \<open>Drawing\<close>

text \<open>
  \<^verbatim>\<open>.call(self.xAxis)\<close>: d3's axis draws one tick per tick value, its text the formatted
  value, with the attributes d3 gives a bottom axis.  An ordinal scale's tick values are
  its domain; a time scale's are d3's choice.
\<close>

definition new_tick :: "jsval \<Rightarrow> string \<Rightarrow> tick" where
  "new_tick d str =
     \<lparr>datum = d, label = str, text_anchor = ''middle'', dx = None,
      dy = Some ''.71em'', transform = None\<rparr>"

definition axis_call :: "env \<Rightarrow> axis option \<Rightarrow> tick list option" where
  "axis_call env a =
     (case a of
        None \<Rightarrow> None
      | Some ax \<Rightarrow>
          (case scale_a ax of
             Primitive v \<Rightarrow> None
           | ScaleFunction s \<Rightarrow>
               Some (map (\<lambda>d. new_tick d (tickFormat ax d))
                      (case kind s of
                         Ordinal \<Rightarrow> domain_s s
                       | TimeUtc \<Rightarrow> d3_time_ticks env s (ticks_a ax)))))"

definition append_svg :: "env \<Rightarrow> xaxis \<Rightarrow> real \<Rightarrow> real \<Rightarrow> panel \<Rightarrow> panel outcome" where
  "append_svg env self width height p =
     (case axis_call env (xAxis self) of
        None \<Rightarrow>
          Threw TypeError
            (p\<lparr>children := children p @
                 [\<lparr>svg_width = width, svg_height = height, g_ticks = []\<rparr>]\<rparr>)
      | Some ts \<Rightarrow>
          Returned
            (p\<lparr>children := children p @
                 [\<lparr>svg_width = width, svg_height = height, g_ticks = ts\<rparr>]\<rparr>))"

text \<open>The body of \<^verbatim>\<open>selection.each\<close> in draw, panel after panel.\<close>

fun draw_each ::
  "env \<Rightarrow> real \<Rightarrow> nat \<Rightarrow> xaxis \<Rightarrow> panel list \<Rightarrow> (xaxis \<times> panel list) outcome" where
  "draw_each env parentWidth n self [] = Returned (self, [])"
| "draw_each env parentWidth n self (p # ps) =
     (let width = parentWidth / real n;
          height = div_height p
      in if validateWidthandHeight env width height
         then Threw DimensionError (self, p # ps)
         else
           (case getXAxis self width of
              Threw e self1 \<Rightarrow> Threw e (self1, p # ps)
            | Returned self1 \<Rightarrow>
                (case append_svg env self1 width height p of
                   Threw e p1 \<Rightarrow> Threw e (self1, p1 # ps)
                 | Returned p1 \<Rightarrow>
                     (case draw_each env parentWidth n self1 ps of
                        Threw e (self2, ps1) \<Rightarrow> Threw e (self2, p1 # ps1)
                      | Returned (self2, ps1) \<Rightarrow> Returned (self2, p1 # ps1)))))"

text \<open>
  draw resets \<^verbatim>\<open>isRotated\<close>, and the function it returns measures the wrapper once,
  draws every panel and then calls filterOrRotate on the selection.
\<close>

definition draw :: "env \<Rightarrow> xaxis \<Rightarrow> xaxis outcome" where
  "draw env self =
     (let self1 = self\<lparr>attr := (attr self)\<lparr>isRotated := False\<rparr>\<rparr>;
          selection = panels (el self1);
          n = length selection;
          parentWidth = wrapper_width (el self1)
      in case draw_each env parentWidth n self1 selection of
           Threw e (self2, ps) \<Rightarrow> Threw e (with_panels self2 ps)
         | Returned (self2, ps) \<Rightarrow> filterOrRotate env (with_panels self2 ps))"

definition render :: "env \<Rightarrow> xaxis \<Rightarrow> xaxis outcome" where
  "render env self = draw env self"

section \<open>A sample environment\<close>

text \<open>
  Modelled from the spec: the error handler mixin
  (\<^verbatim>\<open>components/vislib/lib/_error_handler\<close>) is not among the sources.  The spec's axis
  renderer validates \<open>panelWidth > 0\<close> and \<open>panelHeight > 0\<close> and fails with a
  configuration error otherwise.
\<close>

definition spec_validateWidthandHeight :: "real \<Rightarrow> real \<Rightarrow> bool" where
  "spec_validateWidthandHeight width height = (\<not> (width > 0 \<and> height > 0))"

text \<open>
  Concrete collaborators for the examples: d3's linear map of a continuous scale (\<open>NaN\<close>
  when an end of the domain is not a number), d3's band positions
  (\<open>step = (hi - lo) / (n + padding)\<close>, bands of \<open>step * (1 - padding)\<close>), the domain
  ends as the ticks of a time scale, and a font of ten pixels per character.
\<close>

fun linear_apply :: "jsval list \<Rightarrow> range_spec \<Rightarrow> jsval \<Rightarrow> jsnum" where
  "linear_apply [Number (Num a), Number (Num b)] (Range r0 r1) (Number (Num x)) =
     Num (if a = b then r0 else r0 + (x - a) / (b - a) * (r1 - r0))"
| "linear_apply ds rg x = NaN"

fun index_of :: "jsval \<Rightarrow> jsval list \<Rightarrow> nat option" where
  "index_of x [] = None"
| "index_of x (y # ys) =
     (if x = y then Some 0 else map_option Suc (index_of x ys))"

fun band_apply :: "jsval list \<Rightarrow> range_spec \<Rightarrow> jsval \<Rightarrow> jsnum" where
  "band_apply ds (RangeBands lo hi padding) x =
     (case index_of x ds of
        None \<Rightarrow> NaN
      | Some i \<Rightarrow>
          Num (lo + (hi - lo) / (real (length ds) + padding) * (padding + real i)))"
| "band_apply ds rg x = NaN"

definition sample_apply :: "scale \<Rightarrow> jsval \<Rightarrow> jsnum" where
  "sample_apply s x =
     (case kind s of
        TimeUtc \<Rightarrow> linear_apply (domain_s s) (range_s s) x
      | Ordinal \<Rightarrow> band_apply (domain_s s) (range_s s) x)"

fun sample_rangeBand :: "scale \<Rightarrow> real" where
  "sample_rangeBand s =
     (case range_s s of
        RangeBands lo hi padding \<Rightarrow>
          (hi - lo) / (real (length (domain_s s)) + padding) * (1 - padding)
      | _ \<Rightarrow> 0)"

definition sample_time_ticks :: "scale \<Rightarrow> nat \<Rightarrow> jsval list" where
  "sample_time_ticks s n = domain_s s"

text \<open>The sample arithmetic rounds nothing.\<close>

fun exact_div :: "jsnum \<Rightarrow> jsnum \<Rightarrow> jsnum" where
  "exact_div (Num a) (Num b) =
     (if b = 0 then (if a = 0 then NaN else if 0 < a then PosInfinity else NegInfinity)
      else Num (a / b))"
| "exact_div a b = NaN"

fun exact_sub :: "jsnum \<Rightarrow> jsnum \<Rightarrow> jsnum" where
  "exact_sub (Num a) (Num b) = Num (a - b)"
| "exact_sub PosInfinity (Num b) = PosInfinity"
| "exact_sub NegInfinity (Num b) = NegInfinity"
| "exact_sub a b = NaN"

definition ten_px_per_char :: "tick \<Rightarrow> real" where
  "ten_px_per_char t = 10 * real (length (label t))"

definition sample_env :: env where
  "sample_env =
     \<lparr>validateWidthandHeight = spec_validateWidthandHeight,
      d3_time_ticks = sample_time_ticks,
      d3_apply = sample_apply,
      d3_rangeBand = sample_rangeBand,
      text_bbox_width = ten_px_per_char,
      tick_bbox_width = ten_px_per_char,
      js_div = exact_div,
      js_sub = exact_sub\<rparr>"

definition hello_tick :: tick where
  "hello_tick = new_tick (Str ''hello, world'') ''hello, world''"

definition ab_tick :: tick where
  "ab_tick = new_tick (Str ''ab'') ''ab''"

text \<open>
  A categorical axis over three months in one panel of the given width, as the first
  half of draw leaves it, and a formatter that prints a string as it is.
\<close>

definition fmt_value :: "jsval \<Rightarrow> string" where
  "fmt_value v = (case v of Str str \<Rightarrow> str | _ \<Rightarrow> ''--'')"

definition months :: "jsval list" where
  "months = [Str ''January'', Str ''February'', Str ''March'']"

definition months_axis :: "real \<Rightarrow> xaxis" where
  "months_axis w =
     \<lparr>el = \<lparr>wrapper_width = w,
             panels = [\<lparr>div_width = w, div_height = 20, children = []\<rparr>]\<rparr>,
      xValues = months,
      ordered = None,
      xAxisFormatter = fmt_value,
      attr = \<lparr>isRotated = False, xAxisLabelHt = None\<rparr>,
      xScale = Primitive Undefined,
      xAxis = None\<rparr>"

definition months_scale :: "real \<Rightarrow> scale" where
  "months_scale w = \<lparr>kind = Ordinal, domain_s = months, range_s = RangeBands 0 w (1 / 10)\<rparr>"

definition months_drawn :: "real \<Rightarrow> xaxis" where
  "months_drawn w =
     (months_axis w)
       \<lparr>xScale := ScaleFunction (months_scale w),
        xAxis := Some \<lparr>scale_a = ScaleFunction (months_scale w), ticks_a = 10,
                       tickFormat = fmt_value, orient = ''bottom''\<rparr>\<rparr>"

definition months_panel :: "real \<Rightarrow> panel" where
  "months_panel w =
     \<lparr>div_width = w, div_height = 20,
      children =
        [\<lparr>svg_width = w, svg_height = 20,
          g_ticks = [new_tick (Str ''January'') ''January'',
                     new_tick (Str ''February'') ''February'',
                     new_tick (Str ''March'') ''March'']\<rparr>]\<rparr>"

text \<open>
  The vocabulary of the collision filter, in the spec's words: a tick's position, its
  padded half width, and the rule "keep iff the right edge of the last kept tick is left
  of \<open>x - halfWidth\<close> and \<open>x + halfWidth\<close> is left of the axis width", for a given axis
  width.
\<close>

definition myX :: "env \<Rightarrow> scale \<Rightarrow> tick \<Rightarrow> jsnum" where
  "myX env s t = d3_apply env s (datum t)"

definition halfWidth :: "env \<Rightarrow> tick \<Rightarrow> real" where
  "halfWidth env t = tick_bbox_width env t * (11 / 10) / 2"







text \<open>
  A temporal axis over \<open>[0, 1000]\<close> in one panel of 500 pixels, its scale, and three ticks
  at 100, 120 and 400.
\<close>

definition time_axis :: xaxis where
  "time_axis =
     \<lparr>el = \<lparr>wrapper_width = 500,
             panels = [\<lparr>div_width = 500, div_height = 20, children = []\<rparr>]\<rparr>,
      xValues = [],
      ordered = Some \<lparr>date = True, min_o = Number (Num 0), max_o = Number (Num 1000)\<rparr>,
      xAxisFormatter = fmt_value,
      attr = \<lparr>isRotated = True, xAxisLabelHt = None\<rparr>,
      xScale = Primitive Undefined,
      xAxis = None\<rparr>"



text \<open>
  Two more axes: one whose ordering object is present but not a date (a numeric
  interval, as a histogram has), and a temporal one whose ordering has no bounds.
\<close>

definition interval_ordering :: ordered_info where
  "interval_ordering = \<lparr>date = False, min_o = Undefined, max_o = Undefined\<rparr>"

definition interval_axis :: xaxis where
  "interval_axis = (months_axis 120)\<lparr>ordered := Some interval_ordering\<rparr>"

definition interval_drawn :: xaxis where
  "interval_drawn = (months_drawn 120)\<lparr>ordered := Some interval_ordering\<rparr>"

definition march_panel :: panel where
  "march_panel =
     \<lparr>div_width = 120, div_height = 20,
      children = [\<lparr>svg_width = 120, svg_height = 20,
                   g_ticks = [new_tick (Str ''March'') ''March'']\<rparr>]\<rparr>"

definition unbounded_ordering :: ordered_info where
  "unbounded_ordering = \<lparr>date = True, min_o = Undefined, max_o = Undefined\<rparr>"

definition unbounded_axis :: xaxis where
  "unbounded_axis = time_axis\<lparr>ordered := Some unbounded_ordering\<rparr>"

definition unbounded_scale :: scale where
  "unbounded_scale =
     \<lparr>kind = TimeUtc, domain_s = [Undefined, Undefined], range_s = Range 0 500\<rparr>"

definition svg_counts :: "xaxis \<Rightarrow> nat list" where
  "svg_counts self = map (\<lambda>p. length (children p)) (panels (el self))"

text \<open>
  Two relations between a panel before and after a pass: \<open>same_box\<close>, the measured size
  is the same; \<open>appended w\<close>, the panel has one more svg, of width \<open>w\<close> and of the
  panel's height, behind the ones it had.
\<close>

definition same_box :: "panel \<Rightarrow> panel \<Rightarrow> bool" where
  "same_box p q = (div_width q = div_width p \<and> div_height q = div_height p)"

definition appended :: "real \<Rightarrow> panel \<Rightarrow> panel \<Rightarrow> bool" where
  "appended w p q =
     (children q \<noteq> [] \<and> butlast (children q) = children p
      \<and> svg_width (last (children q)) = w
      \<and> svg_height (last (children q)) = div_height p)"

definition svg_widths :: "panel \<Rightarrow> real list" where
  "svg_widths p = map svg_width (children p)"

text \<open>
  The two halves of draw, named for the proofs: the axis object after the reset of
  \<^verbatim>\<open>isRotated\<close>, and the outcome of the loop over the panels.
\<close>

definition reset :: "xaxis \<Rightarrow> xaxis" where
  "reset self = self\<lparr>attr := (attr self)\<lparr>isRotated := False\<rparr>\<rparr>"

definition drawn :: "env \<Rightarrow> xaxis \<Rightarrow> (xaxis \<times> panel list) outcome" where
  "drawn env self =
     draw_each env (wrapper_width (el self)) (length (panels (el self))) (reset self)
       (panels (el self))"

text \<open>The months axis over two panels, the second of height zero.\<close>

definition two_panel_axis :: xaxis where
  "two_panel_axis =
     (months_axis 240)
       \<lparr>el := \<lparr>wrapper_width = 240,
                panels = [\<lparr>div_width = 120, div_height = 20, children = []\<rparr>,
                          \<lparr>div_width = 120, div_height = 0, children = []\<rparr>]\<rparr>\<rparr>"






text \<open>An axis object whose panels a later pass measures \<open>h\<close> pixels high.\<close>

definition measured_again :: "real \<Rightarrow> xaxis \<Rightarrow> xaxis" where
  "measured_again h self =
     with_panels self (map (\<lambda>p. p\<lparr>div_height := h\<rparr>) (panels (el self)))"

section \<open>Truncation\<close>

lemma trim_endChar_le: "trim_endChar str e \<le> e"
proof (induction str e rule: trim_endChar.induct)
  case (1 str endChar)
  show ?case
  proof (cases "trim_at str (endChar - 1)")
    case True
    with 1 have "trim_endChar str (endChar - 1) \<le> endChar - 1" by simp
    with True show ?thesis by (subst trim_endChar.simps) simp
  next
    case False
    then show ?thesis by (subst trim_endChar.simps) simp
  qed
qed



lemma trim_endChar_nonpos: "e \<le> 0 \<Longrightarrow> trim_endChar str e = e"
  by (subst trim_endChar.simps) (simp add: trim_at_def)



lemma truncateLabel_fits:
  "text_bbox_width env t \<le> budget \<Longrightarrow> truncateLabel env t budget = label t"
  by (simp add: truncateLabel_def Let_def)

lemma truncateLabel_cut:
  "budget < text_bbox_width env t \<Longrightarrow>
   truncateLabel env t budget =
     substr0 (label t) (trim_loop (label t) (js_floor (endChar_estimate env t budget))) @ ''...''"
  by (simp add: truncateLabel_def endChar_estimate_def Let_def)



lemma sample_text_width [simp]: "text_bbox_width sample_env t = 10 * real (length (label t))"
  by (simp add: sample_env_def ten_px_per_char_def)

lemma sample_arith [simp]:
  "js_div sample_env = exact_div" "js_sub sample_env = exact_sub"
  by (simp_all add: sample_env_def)

lemma hello_label [simp]: "label hello_tick = ''hello, world''"
  by (simp add: hello_tick_def new_tick_def)


lemma hello_estimate: "endChar_estimate sample_env hello_tick 100 = Num 6"
  by (simp add: endChar_estimate_def)


lemma ab_label [simp]: "label ab_tick = ''ab''"
  by (simp add: ab_tick_def new_tick_def)

lemma trim_ab: "trim_endChar ''ab'' (-3) = -3"
  by (simp add: trim_endChar_nonpos)

lemma truncate_ab: "truncateLabel sample_env ab_tick 10 = ''...''"
  by (simp add: truncateLabel_cut endChar_estimate_def trim_ab)

text \<open>
  C7 as stated fails: a budget of exactly one estimated character width does not bound
  the result.  The two-character label below is ten pixels per character wide; with a
  budget of ten pixels truncateLabel returns the three dots, thirty estimated pixels,
  more than the budget plus one character.
\<close>

theorem truncateLabel_width_counterexample:
  "label ab_tick \<noteq> []
   \<and> text_bbox_width sample_env ab_tick / real (length (label ab_tick)) \<le> 10
   \<and> \<not> (real (length (truncateLabel sample_env ab_tick 10))
          * (text_bbox_width sample_env ab_tick / real (length (label ab_tick)))
        \<le> 10 + text_bbox_width sample_env ab_tick / real (length (label ab_tick)))"
  by (simp add: truncate_ab)

text \<open>
  C7, amended.  For a label of at least one character with a non-negative rendered
  width and a budget of at least two estimated character widths, the string truncateLabel
  returns has an estimated pixel width (its length times \<open>pxPerChar\<close>) of at most the
  budget plus one character's estimated width.  The engine's arithmetic enters through
  one condition: what it computes for \<open>budget / pxPerChar - 4\<close> is at most two above the
  exact value, as it is when nothing is rounded and (\<open>rounding_estimate\<close> below) when
  every operation rounds to nearest.
\<close>

theorem truncateLabel_width_bound:
  assumes nonempty: "label t \<noteq> []"
    and width: "0 \<le> text_bbox_width env t"
    and budget: "2 * (text_bbox_width env t / real (length (label t))) \<le> budget"
    and arithmetic: "budget < text_bbox_width env t \<Longrightarrow> estimate_within 2 env t budget"
  shows "real (length (truncateLabel env t budget))
           * (text_bbox_width env t / real (length (label t)))
         \<le> budget + text_bbox_width env t / real (length (label t))"
proof -
  define w where "w = text_bbox_width env t"
  define n where "n = length (label t)"
  define c where "c = w / real n"
  have n: "0 < n" using nonempty by (simp add: n_def)
  have c0: "0 \<le> c" using width n by (simp add: c_def w_def)
  have b: "2 * c \<le> budget" using budget by (simp add: c_def w_def n_def)
  show ?thesis
  proof (cases "w \<le> budget")
    case True
    then have "truncateLabel env t budget = label t"
      by (simp add: truncateLabel_fits w_def)
    moreover have "real n * c = w" using n by (simp add: c_def)
    ultimately show ?thesis using True c0
      by (simp add: w_def n_def c_def)
  next
    case False
    then have over: "budget < text_bbox_width env t" by (simp add: w_def)
    with b c0 have wpos: "0 < w" unfolding w_def by linarith
    then have cpos: "0 < c" using n by (simp add: c_def)
    have dots: "real (length ''...'') * c \<le> budget + c"
      using b c0 by simp
    have res: "truncateLabel env t budget =
        substr0 (label t) (trim_loop (label t) (js_floor (endChar_estimate env t budget))) @ ''...''"
      using over by (rule truncateLabel_cut)
    have "real (length (truncateLabel env t budget)) * c \<le> budget + c"
    proof (cases "endChar_estimate env t budget")
      case (Num y)
      with arithmetic [OF over] have y: "y \<le> budget / c - 2"
        by (simp add: estimate_within_def c_def w_def n_def)
      define e where "e = trim_endChar (label t) \<lfloor>y\<rfloor>"
      have ele: "e \<le> \<lfloor>y\<rfloor>" by (simp add: e_def trim_endChar_le)
      have r: "truncateLabel env t budget = take (nat e) (label t) @ ''...''"
        using res Num by (simp add: e_def)
      have len: "real (length (truncateLabel env t budget)) \<le> real (nat e) + 3"
        by (simp add: r)
      have "(real (nat e) + 3) * c \<le> budget + c"
      proof (cases "e \<le> 0")
        case True
        then show ?thesis using b c0 by simp
      next
        case False
        then have "real (nat e) = of_int e" by simp
        also have "\<dots> \<le> of_int \<lfloor>y\<rfloor>" using ele by simp
        also have "\<dots> \<le> y" by simp
        also have "\<dots> \<le> budget / c - 2" by (rule y)
        finally have "real (nat e) + 3 \<le> budget / c + 1" by simp
        then have "(real (nat e) + 3) * c \<le> (budget / c + 1) * c"
          using cpos by (simp add: mult_right_mono)
        also have "\<dots> = budget + c" using cpos by (simp add: field_simps)
        finally show ?thesis .
      qed
      moreover have "real (length (truncateLabel env t budget)) * c \<le> (real (nat e) + 3) * c"
        using len c0 by (rule mult_right_mono)
      ultimately show ?thesis by simp
    next
      case NaN
      with res dots show ?thesis by simp
    next
      case NegInfinity
      with res dots show ?thesis by simp
    next
      case PosInfinity
      with arithmetic [OF over] show ?thesis
        by (simp add: estimate_within_def)
    qed
    then show ?thesis by (simp add: c_def w_def n_def)
  qed
qed

theorem truncateLabel_width_bound_witness:
  "label hello_tick \<noteq> []
   \<and> 0 \<le> text_bbox_width sample_env hello_tick
   \<and> 2 * (text_bbox_width sample_env hello_tick / real (length (label hello_tick))) \<le> 100
   \<and> 100 < text_bbox_width sample_env hello_tick
   \<and> estimate_within 2 sample_env hello_tick 100
   \<and> real (length (truncateLabel sample_env hello_tick 100))
        * (text_bbox_width sample_env hello_tick / real (length (label hello_tick)))
      \<le> 100 + text_bbox_width sample_env hello_tick / real (length (label hello_tick))"
proof -
  have e: "estimate_within 2 sample_env hello_tick 100"
    by (simp add: estimate_within_def hello_estimate)
  from e truncateLabel_width_bound [of hello_tick sample_env 100]
  show ?thesis by simp
qed

text \<open>
  Engines that round to nearest meet the condition of the bound for every label of at
  most \<open>2 ^ 52\<close> characters.
\<close>

lemma rounding_estimate:
  assumes rn: "rounds_to_nearest env t sz"
    and nonempty: "label t \<noteq> []"
    and len: "real (length (label t)) \<le> 2 ^ 52"
    and sz: "0 \<le> sz" and over: "sz < text_bbox_width env t"
  shows "estimate_within 2 env t sz"
proof -
  define w where "w = text_bbox_width env t"
  define n where "n = real (length (label t))"
  define c where "c = w / n"
  define u :: real where "u = 1 / 2 ^ 53"
  have u: "0 < u" "u \<le> 1 / 100" by (simp_all add: u_def)
  have n: "0 < n" using nonempty by (simp add: n_def)
  have w: "0 < w" using sz over by (simp add: w_def)
  have c: "0 < c" using n w by (simp add: c_def)
  from rn obtain p q r where
    p: "js_div env (Num w) (Num n) = Num p" and rp: "rounds c p"
    and q: "js_div env (Num sz) (Num p) = Num q" and rq: "rounds (sz / p) q"
    and r: "js_sub env (Num q) (Num 4) = Num r" and rr: "rounds (q - 4) r"
    by (auto simp: rounds_to_nearest_def w_def n_def c_def split: jsnum.splits)
  define Q where "Q = sz / c"
  define A where "A = sz / p"
  define a where "a = A * u"
  define b where "b = a * u"
  have du: "\<bar>x\<bar> / 2 ^ 53 = \<bar>x\<bar> * u" for x :: real
    by (simp add: u_def)
  have "\<bar>p - c\<bar> \<le> \<bar>c\<bar> * u"
    using rp by (simp only: rounds_def du)
  then have pl: "c - c * u \<le> p"
    using c by linarith
  have "c * u \<le> c * (1 / 100)" using u c by (intro mult_left_mono) simp_all
  with pl c have ppos: "0 < p" by linarith
  have A0: "0 \<le> A" using sz ppos by (simp add: A_def)
  have a0: "0 \<le> a" using A0 u by (simp add: a_def)
  have Ap: "A * p = sz" using ppos by (simp add: A_def)
  have "A * (c - c * u) \<le> A * p" using pl A0 by (rule mult_left_mono)
  then have "(A - a) * c \<le> sz" by (simp add: Ap a_def algebra_simps)
  then have F3: "A - a \<le> Q" using c by (simp add: Q_def pos_le_divide_eq)
  have Qn: "Q < n"
  proof -
    have "sz * n < w * n" using over n by (simp add: w_def)
    then have "sz / c < n" using w n by (simp add: c_def field_simps)
    then show ?thesis by (simp add: Q_def)
  qed
  have Q0: "0 \<le> Q" using sz c by (simp add: Q_def)
  have "Q * u \<le> 2 ^ 52 * u" using Qn len u by (intro mult_right_mono) (simp_all add: n_def)
  then have Qu: "Q * u \<le> 1 / 2" by (simp add: u_def)
  have "\<bar>q - A\<bar> \<le> \<bar>A\<bar> * u"
    using rq by (simp only: rounds_def du A_def)
  then have F4: "q \<le> A + a" and F5: "A - a \<le> q"
    using A0 unfolding a_def by linarith+
  have b9: "b \<le> a * (1 / 100)" unfolding b_def using u a0 by (intro mult_left_mono) simp_all
  have b0: "0 \<le> b" using a0 u by (simp add: b_def)
  have "(A - a) * u \<le> Q * u" using F3 u by (intro mult_right_mono) simp_all
  then have F8: "a - b \<le> 1 / 2" using Qu by (simp add: a_def b_def algebra_simps)
  have q0: "0 \<le> q"
  proof -
    have "a \<le> A * (1 / 100)" unfolding a_def using u A0 by (intro mult_left_mono) simp_all
    with F5 A0 show ?thesis by linarith
  qed
  have "q * u \<le> (A + a) * u" using F4 u by (intro mult_right_mono) simp_all
  then have F7: "q * u \<le> a + b" by (simp add: a_def b_def algebra_simps)
  have "\<bar>r - (q - 4)\<bar> \<le> \<bar>q - 4\<bar> * u"
    using rr by (simp only: rounds_def du)
  then have "r - (q - 4) \<le> \<bar>q - 4\<bar> * u"
    by linarith
  moreover have "\<bar>q - 4\<bar> * u \<le> (q + 4) * u"
    using q0 u by (intro mult_right_mono) simp_all
  ultimately have F6: "r \<le> q - 4 + q * u + 4 * u" by (simp add: algebra_simps)
  have "r \<le> Q - 2"
    using F6 F7 F4 F3 F8 b9 b0 a0 u by linarith
  then show ?thesis
    using p q r by (simp add: estimate_within_def endChar_estimate_def Q_def c_def w_def n_def)
qed

section \<open>Rotation of categorical labels\<close>

lemma lodash_max_Max:
  assumes "ws \<noteq> []"
  shows "lodash_max ws = Num (Max (set ws))"
proof (cases ws)
  case Nil
  with assms show ?thesis by simp
next
  case (Cons a list)
  have "Max (set (a # list)) = fold max list a"
    by (rule Max.set_eq_fold)
  with Cons show ?thesis by simp
qed

lemma rangeBand_call_ordinal:
  "xScale self = ScaleFunction s \<Longrightarrow> kind s = Ordinal \<Longrightarrow>
   rangeBand_call env (xScale self) = Some (d3_rangeBand env s)"
  by (simp add: rangeBand_call_def)

text \<open>
  C5.  In a categorical rotation pass (the scale is ordinal) over a panel with at least
  one tick label, with \<open>maxLabelWidth\<close> the largest measured label width and
  \<open>bandWidth\<close> the scale's band width: \<^verbatim>\<open>xAxisLabelHt\<close> is \<open>maxLabelWidth + 15\<close>, except
  that it is exactly 180 when \<open>maxLabelWidth > 180\<close>; and \<^verbatim>\<open>isRotated\<close> is true exactly
  when \<open>maxLabelWidth > bandWidth\<close>.
\<close>

theorem rotateAxisLabels_attributes:
  assumes scale: "xScale self = ScaleFunction s" and ordinal: "kind s = Ordinal"
    and ticks: "panel_ticks p \<noteq> []"
  shows "returned (rotateAxisLabels env self p)
       \<and> xAxisLabelHt (attr (fst (state_of (rotateAxisLabels env self p))))
           = Some (Num (if Max (set (map (text_bbox_width env) (panel_ticks p))) > 180 then 180
                        else Max (set (map (text_bbox_width env) (panel_ticks p))) + 15))
       \<and> isRotated (attr (fst (state_of (rotateAxisLabels env self p))))
           = (Max (set (map (text_bbox_width env) (panel_ticks p))) > d3_rangeBand env s)"
proof -
  have m: "lodash_max (map (text_bbox_width env) (panel_ticks p))
      = Num (Max (set (map (text_bbox_width env) (panel_ticks p))))"
    using ticks by (simp add: lodash_max_Max)
  show ?thesis
    using rangeBand_call_ordinal [OF scale ordinal, of env]
    by (simp add: rotateAxisLabels_def Let_def m)
qed

text \<open>
  C9.  In a categorical rotation pass whose decision comes out false (the largest label
  width does not exceed the band width), the panel comes back as it was: every tick's
  text, text anchor, offsets and transform, and the svg's height.  The axis object
  differs in its attribute bag only (\<^verbatim>\<open>isRotated\<close> and \<^verbatim>\<open>xAxisLabelHt\<close>).
\<close>

theorem rotateAxisLabels_frame:
  assumes scale: "xScale self = ScaleFunction s" and ordinal: "kind s = Ordinal"
    and fits: "\<not> jsnum_gt (lodash_max (map (text_bbox_width env) (panel_ticks p)))
                  (d3_rangeBand env s)"
  shows "rotateAxisLabels env self p =
     Returned
       (self\<lparr>attr := (attr self)\<lparr>isRotated := False,
           xAxisLabelHt :=
             Some (if jsnum_gt (lodash_max (map (text_bbox_width env) (panel_ticks p))) 180
                   then Num 180
                   else jsnum_add (lodash_max (map (text_bbox_width env) (panel_ticks p))) 15)\<rparr>\<rparr>,
        p)"
  using rangeBand_call_ordinal [OF scale ordinal, of env] fits
  by (simp add: rotateAxisLabels_def Let_def)


lemma rotateAxisLabels_rotated:
  assumes scale: "xScale self = ScaleFunction s" and ordinal: "kind s = Ordinal"
    and ticks: "panel_ticks p \<noteq> []"
    and wide: "Max (set (map (text_bbox_width env) (panel_ticks p))) > d3_rangeBand env s"
  shows "snd (state_of (rotateAxisLabels env self p)) =
     rotate_panel env
       (if Max (set (map (text_bbox_width env) (panel_ticks p))) > 180 then 180
        else Max (set (map (text_bbox_width env) (panel_ticks p))) + 15) p"
proof -
  have m: "lodash_max (map (text_bbox_width env) (panel_ticks p))
      = Num (Max (set (map (text_bbox_width env) (panel_ticks p))))"
    using ticks by (simp add: lodash_max_Max)
  show ?thesis
    using rangeBand_call_ordinal [OF scale ordinal, of env] wide
    by (simp add: rotateAxisLabels_def Let_def m)
qed

lemma months_draw_each:
  "draw_each sample_env 120 1 (months_axis 120) (panels (el (months_axis 120)))
     = Returned (months_drawn 120, [months_panel 120])"
  by (simp add: months_axis_def months_drawn_def months_panel_def months_scale_def
      sample_env_def spec_validateWidthandHeight_def getXAxis_def getXScale_def getScale_def
      getDomain_def getRange_def getOrdinalDomain_def d3_domain_def d3_rangeBands_def
      d3_scale_ordinal_def ordered_and_date_def append_svg_def axis_call_def months_def
      fmt_value_def Let_def)

lemma months_panel_ticks:
  "panel_ticks (months_panel w) =
     [new_tick (Str ''January'') ''January'', new_tick (Str ''February'') ''February'',
      new_tick (Str ''March'') ''March'']"
  by (simp add: panel_ticks_def months_panel_def)

lemma months_widths:
  "map (text_bbox_width sample_env) (panel_ticks (months_panel w)) = [70, 80, 50]"
  by (simp add: months_panel_ticks sample_env_def ten_px_per_char_def new_tick_def)

lemma months_band: "d3_rangeBand sample_env (months_scale w) = w / (31 / 10) * (9 / 10)"
  by (simp add: sample_env_def months_scale_def months_def)

theorem rotateAxisLabels_attributes_witness:
  "xScale (months_drawn 120) = ScaleFunction (months_scale 120)
   \<and> kind (months_scale 120) = Ordinal
   \<and> panel_ticks (months_panel 120) \<noteq> []
   \<and> returned (rotateAxisLabels sample_env (months_drawn 120) (months_panel 120))
   \<and> xAxisLabelHt (attr (fst (state_of
        (rotateAxisLabels sample_env (months_drawn 120) (months_panel 120))))) = Some (Num 95)
   \<and> isRotated (attr (fst (state_of
        (rotateAxisLabels sample_env (months_drawn 120) (months_panel 120))))) = True"
proof -
  have h1: "xScale (months_drawn 120) = ScaleFunction (months_scale 120)"
    by (simp add: months_drawn_def)
  have h2: "kind (months_scale 120) = Ordinal"
    by (simp add: months_scale_def)
  have h3: "panel_ticks (months_panel 120) \<noteq> []"
    by (simp add: months_panel_ticks)
  have mx: "Max (set (map (text_bbox_width sample_env) (panel_ticks (months_panel 120)))) = 80"
    by (simp only: months_widths) simp
  show ?thesis
    using h1 h2 h3 rotateAxisLabels_attributes [OF h1 h2 h3, of sample_env]
    unfolding mx months_band by simp
qed

theorem rotateAxisLabels_frame_witness:
  "xScale (months_drawn 600) = ScaleFunction (months_scale 600)
   \<and> kind (months_scale 600) = Ordinal
   \<and> \<not> jsnum_gt (lodash_max (map (text_bbox_width sample_env) (panel_ticks (months_panel 600))))
         (d3_rangeBand sample_env (months_scale 600))
   \<and> rotateAxisLabels sample_env (months_drawn 600) (months_panel 600) =
       Returned ((months_drawn 600)\<lparr>attr := \<lparr>isRotated = False, xAxisLabelHt = Some (Num 95)\<rparr>\<rparr>,
                 months_panel 600)"
proof -
  have h1: "xScale (months_drawn 600) = ScaleFunction (months_scale 600)"
    by (simp add: months_drawn_def)
  have h2: "kind (months_scale 600) = Ordinal"
    by (simp add: months_scale_def)
  have h3: "\<not> jsnum_gt (lodash_max (map (text_bbox_width sample_env) (panel_ticks (months_panel 600))))
         (d3_rangeBand sample_env (months_scale 600))"
    unfolding months_widths months_band by simp
  have a: "attr (months_drawn 600) = \<lparr>isRotated = False, xAxisLabelHt = None\<rparr>"
    by (simp add: months_drawn_def months_axis_def)
  show ?thesis
    using h1 h2 h3 rotateAxisLabels_frame [OF h1 h2 h3]
    unfolding months_widths a by simp
qed

section \<open>The collision filter\<close>













lemma filter_svgs_Cons:
  "filter_svgs env self s a (v # vs) =
     (fst (filter_svgs env self s (fst (filter_each env self s a (g_ticks v))) vs),
      v\<lparr>g_ticks := surviving (snd (filter_each env self s a (g_ticks v)))\<rparr>
        # snd (filter_svgs env self s (fst (filter_each env self s a (g_ticks v))) vs))"
  by (simp split: prod.splits)






lemma filter_svgs_widths:
  "map svg_width (snd (filter_svgs env self s a vs)) = map svg_width vs"
  by (induction vs arbitrary: a) (simp_all add: filter_svgs_Cons del: filter_svgs.simps(2))











section \<open>Axis kind\<close>

lemma getXScale_kinds:
  "getXScale self ord width =
     (if ordered_and_date ord
      then \<lparr>kind = TimeUtc, domain_s = [min_o (the ord), max_o (the ord)],
            range_s = Range 0 width\<rparr>
      else \<lparr>kind = Ordinal, domain_s = uniq (xValues self),
            range_s = RangeBands 0 width (1 / 10)\<rparr>)"
  by (cases ord)
    (simp_all add: getXScale_def getScale_def getDomain_def getRange_def getTimeDomain_def
      getOrdinalDomain_def d3_domain_def d3_range_def d3_rangeBands_def d3_time_scale_utc_def
      d3_scale_ordinal_def ordered_and_date_def Let_def)

lemma branches_agree_iff:
  "(not_ordered ord = (\<not> ordered_and_date ord))
     = (case ord of None \<Rightarrow> True | Some ob \<Rightarrow> date ob)"
  by (cases ord) (simp_all add: not_ordered_def ordered_and_date_def)

lemma uniq_months: "uniq months = months"
  by (simp add: months_def)

lemma interval_filter:
  "filterAxisLabels sample_env interval_drawn (months_panel 120)
     = Returned (interval_drawn, march_panel)"
  by (simp add: filterAxisLabels_def interval_drawn_def months_drawn_def months_panel_def
      march_panel_def months_scale_def months_axis_def filter_callback_def sample_env_def
      sample_apply_def months_def ten_px_per_char_def new_tick_def first_div_width_def
      surviving_def fmt_value_def Let_def)

text \<open>
  C1 says that for every ordering value the scale branch (getScale, getRange) and the
  label branch (filterOrRotate) choose the same axis kind.  The code at an ordering
  object that is present but not a date: getXScale builds the ordinal scale with the
  banded range of padding 0.1, while filterOrRotate does not take the rotation branch
  and runs the collision filter on that ordinal axis, which removes the ticks of January
  and February; rotateAxisLabels would have kept all three.
\<close>

theorem axis_kind_disagreement:
  "ordered interval_axis = Some interval_ordering
   \<and> kind (getXScale interval_axis (ordered interval_axis) 120) = Ordinal
   \<and> range_s (getXScale interval_axis (ordered interval_axis) 120) = RangeBands 0 120 (1 / 10)
   \<and> getXAxis interval_axis 120 = Returned interval_drawn
   \<and> not_ordered (ordered interval_drawn) = False
   \<and> filterOrRotate_each sample_env interval_drawn [months_panel 120]
       = Returned (interval_drawn, [march_panel])
   \<and> rotateAxisLabels sample_env interval_drawn (months_panel 120)
       \<noteq> Returned (interval_drawn, march_panel)"
proof -
  have o: "ordered interval_axis = Some interval_ordering"
    by (simp add: interval_axis_def)
  have od: "ordered_and_date (Some interval_ordering) = False"
    by (simp add: ordered_and_date_def interval_ordering_def)
  have sc: "getXScale interval_axis (Some interval_ordering) 120 = months_scale 120"
    by (simp add: getXScale_kinds od months_scale_def interval_axis_def months_axis_def
        uniq_months)
  have gx: "getXAxis interval_axis 120 = Returned interval_drawn"
    by (simp add: getXAxis_def o sc Let_def)
      (simp add: interval_axis_def interval_drawn_def months_drawn_def months_axis_def)
  have no: "not_ordered (ordered interval_drawn) = False"
    by (simp add: interval_drawn_def not_ordered_def)
  have fe: "filterOrRotate_each sample_env interval_drawn [months_panel 120]
       = Returned (interval_drawn, [march_panel])"
    by (simp add: no interval_filter)
  have "length (panel_ticks (months_panel 120)) \<noteq> length (panel_ticks march_panel)"
    by (simp add: panel_ticks_def months_panel_def march_panel_def)
  moreover have "length (panel_ticks (snd (state_of
      (rotateAxisLabels sample_env interval_drawn (months_panel 120)))))
      = length (panel_ticks (months_panel 120))"
    by (simp add: rotateAxisLabels_def Let_def rotate_panel_def panel_ticks_def
        months_panel_def split: option.splits jsnum.splits)
  ultimately have "rotateAxisLabels sample_env interval_drawn (months_panel 120)
       \<noteq> Returned (interval_drawn, march_panel)"
    by auto
  with o sc gx no fe show ?thesis
    by (simp add: months_scale_def)
qed

section \<open>Scale validity\<close>

lemma getXAxis_returns: "returned (getXAxis self width)"
  by (simp add: getXAxis_def Let_def)

section \<open>The drawing loop\<close>

lemma getXAxis_eq:
  "getXAxis self w =
     Returned (self\<lparr>xScale := ScaleFunction (getXScale self (ordered self) w),
                    xAxis := Some \<lparr>scale_a = ScaleFunction (getXScale self (ordered self) w),
                                   ticks_a = 10, tickFormat = xAxisFormatter self,
                                   orient = ''bottom''\<rparr>\<rparr>)"
  by (simp add: getXAxis_def Let_def)

lemma getXScale_cong:
  "xValues a = xValues b \<Longrightarrow> getXScale a ord w = getXScale b ord w"
  by (simp add: getXScale_kinds)

text \<open>What one turn of the loop appends to a panel.\<close>

lemma append_svg_drawn:
  "\<exists>ts. append_svg env (state_of (getXAxis self w)) w h p =
     Returned (p\<lparr>children := children p @ [\<lparr>svg_width = w, svg_height = h, g_ticks = ts\<rparr>]\<rparr>)"
  by (simp add: getXAxis_eq append_svg_def axis_call_def) (rule exI, rule refl)

lemma draw_each_Cons:
  "draw_each env W n self (p # ps) =
     (if validateWidthandHeight env (W / real n) (div_height p)
      then Threw DimensionError (self, p # ps)
      else
        (case draw_each env W n (state_of (getXAxis self (W / real n))) ps of
           Threw e (self2, ps1) \<Rightarrow>
             Threw e (self2,
               state_of (append_svg env (state_of (getXAxis self (W / real n)))
                          (W / real n) (div_height p) p) # ps1)
         | Returned (self2, ps1) \<Rightarrow>
             Returned (self2,
               state_of (append_svg env (state_of (getXAxis self (W / real n)))
                          (W / real n) (div_height p) p) # ps1)))"
proof -
  obtain ts where "append_svg env (state_of (getXAxis self (W / real n))) (W / real n)
      (div_height p) p =
     Returned (p\<lparr>children := children p @
        [\<lparr>svg_width = W / real n, svg_height = div_height p, g_ticks = ts\<rparr>]\<rparr>)"
    using append_svg_drawn by blast
  then show ?thesis
    by (simp add: getXAxis_eq Let_def split: outcome.splits prod.splits)
qed


lemma cons_case_proj:
  "state_of (case r of Threw e (s, ps) \<Rightarrow> Threw e (s, q # ps)
                     | Returned (s, ps) \<Rightarrow> Returned (s, q # ps))
     = (fst (state_of r), q # snd (state_of r))"
  "returned (case r of Threw e (s, ps) \<Rightarrow> Threw e (s, q # ps)
                     | Returned (s, ps) \<Rightarrow> Returned (s, q # ps)) = returned r"
  "thrown (case r of Threw e (s, ps) \<Rightarrow> Threw e (s, q # ps)
                   | Returned (s, ps) \<Rightarrow> Returned (s, q # ps)) = thrown r"
  by (cases r; simp split: prod.splits)+

lemma append_svg_appended:
  "same_box p (state_of (append_svg env (state_of (getXAxis self w)) w (div_height p) p))
   \<and> appended w p (state_of (append_svg env (state_of (getXAxis self w)) w (div_height p) p))"
proof -
  obtain ts where "append_svg env (state_of (getXAxis self w)) w (div_height p) p =
     Returned (p\<lparr>children := children p @
        [\<lparr>svg_width = w, svg_height = div_height p, g_ticks = ts\<rparr>]\<rparr>)"
    using append_svg_drawn by blast
  then show ?thesis by (simp add: same_box_def appended_def)
qed

lemma getXAxis_keeps:
  "attr (state_of (getXAxis self w)) = attr self"
  "ordered (state_of (getXAxis self w)) = ordered self"
  "xValues (state_of (getXAxis self w)) = xValues self"
  "el (state_of (getXAxis self w)) = el self"
  "xAxisFormatter (state_of (getXAxis self w)) = xAxisFormatter self"
  "xScale (state_of (getXAxis self w)) = ScaleFunction (getXScale self (ordered self) w)"
  by (simp_all add: getXAxis_eq)

lemma draw_each_keeps:
  "attr (fst (state_of (draw_each env W n self ps))) = attr self
   \<and> ordered (fst (state_of (draw_each env W n self ps))) = ordered self
   \<and> xValues (fst (state_of (draw_each env W n self ps))) = xValues self
   \<and> el (fst (state_of (draw_each env W n self ps))) = el self
   \<and> xAxisFormatter (fst (state_of (draw_each env W n self ps))) = xAxisFormatter self"
proof (induction ps arbitrary: self)
  case Nil
  then show ?case by simp
next
  case (Cons p ps)
  show ?case
    using Cons [of "state_of (getXAxis self (W / real n))"]
    by (simp add: draw_each_Cons cons_case_proj getXAxis_keeps del: draw_each.simps(2))
qed

lemma draw_each_panels:
  "list_all2 (\<lambda>p q. same_box p q \<and> (q = p \<or> appended (W / real n) p q))
     ps (snd (state_of (draw_each env W n self ps)))"
proof (induction ps arbitrary: self)
  case Nil
  then show ?case by simp
next
  case (Cons p ps)
  have refl: "list_all2 (\<lambda>p q. same_box p q \<and> (q = p \<or> appended (W / real n) p q)) ps ps"
    by (simp add: list_all2_same same_box_def)
  show ?case
    using Cons [of "state_of (getXAxis self (W / real n))"] refl
      append_svg_appended [of p env self "W / real n"]
    by (simp add: draw_each_Cons cons_case_proj same_box_def del: draw_each.simps(2))
qed

lemma draw_each_returned_panels:
  "returned (draw_each env W n self ps) \<Longrightarrow>
   list_all2 (\<lambda>p q. same_box p q \<and> appended (W / real n) p q)
     ps (snd (state_of (draw_each env W n self ps)))"
proof (induction ps arbitrary: self)
  case Nil
  then show ?case by simp
next
  case (Cons p ps)
  from Cons.prems have v: "\<not> validateWidthandHeight env (W / real n) (div_height p)"
    by (simp add: draw_each_Cons del: draw_each.simps(2) split: if_splits)
  with Cons.prems have "returned (draw_each env W n (state_of (getXAxis self (W / real n))) ps)"
    by (simp add: draw_each_Cons cons_case_proj del: draw_each.simps(2))
  from Cons.IH [OF this] v append_svg_appended [of p env self "W / real n"]
  show ?case
    by (simp add: draw_each_Cons cons_case_proj del: draw_each.simps(2))
qed

lemma draw_each_thrown:
  "thrown (draw_each env W n self ps) = None
   \<or> thrown (draw_each env W n self ps) = Some DimensionError"
proof (induction ps arbitrary: self)
  case Nil
  then show ?case by simp
next
  case (Cons p ps)
  show ?case
    using Cons [of "state_of (getXAxis self (W / real n))"]
    by (simp add: draw_each_Cons cons_case_proj del: draw_each.simps(2))
qed

lemma returned_thrown: "returned r = (thrown r = None)"
  by (cases r) simp_all

lemma draw_each_fails:
  "i < length ps \<Longrightarrow> validateWidthandHeight env (W / real n) (div_height (ps ! i)) \<Longrightarrow>
   thrown (draw_each env W n self ps) = Some DimensionError
   \<and> snd (state_of (draw_each env W n self ps)) ! i = ps ! i"
proof (induction ps arbitrary: self i)
  case Nil
  then show ?case by simp
next
  case (Cons p ps)
  show ?case
  proof (cases "validateWidthandHeight env (W / real n) (div_height p)")
    case True
    then show ?thesis by (simp add: draw_each_Cons del: draw_each.simps(2))
  next
    case False
    with Cons.prems obtain k where k: "i = Suc k" by (cases i) auto
    with Cons.prems have "k < length ps"
      and "validateWidthandHeight env (W / real n) (div_height (ps ! k))" by simp_all
    from Cons.IH [OF this, of "state_of (getXAxis self (W / real n))"] False k
    show ?thesis
      by (simp add: draw_each_Cons cons_case_proj del: draw_each.simps(2))
  qed
qed

lemma draw_each_returns:
  "\<forall>p \<in> set ps. \<not> validateWidthandHeight env (W / real n) (div_height p) \<Longrightarrow>
   returned (draw_each env W n self ps)"
proof (induction ps arbitrary: self)
  case Nil
  then show ?case by simp
next
  case (Cons p ps)
  then show ?case
    by (simp add: draw_each_Cons cons_case_proj del: draw_each.simps(2))
qed

lemma draw_each_scale:
  "returned (draw_each env W n self ps) \<Longrightarrow> ps \<noteq> [] \<Longrightarrow>
   xScale (fst (state_of (draw_each env W n self ps)))
     = ScaleFunction (getXScale self (ordered self) (W / real n))"
proof (induction ps arbitrary: self)
  case Nil
  then show ?case by simp
next
  case (Cons p ps)
  from Cons.prems have v: "\<not> validateWidthandHeight env (W / real n) (div_height p)"
    by (simp add: draw_each_Cons del: draw_each.simps(2) split: if_splits)
  with Cons.prems have r: "returned (draw_each env W n (state_of (getXAxis self (W / real n))) ps)"
    by (simp add: draw_each_Cons cons_case_proj del: draw_each.simps(2))
  show ?case
  proof (cases "ps = []")
    case True
    with v show ?thesis
      by (simp add: draw_each_Cons getXAxis_keeps del: draw_each.simps(2))
  next
    case False
    from Cons.IH [OF r False] v
    show ?thesis
      by (simp add: draw_each_Cons cons_case_proj getXAxis_keeps
          getXScale_cong [of "state_of (getXAxis self (W / real n))" self]
          del: draw_each.simps(2))
  qed
qed


section \<open>The label pass\<close>

lemma set_first_height_widths:
  "map svg_width (set_first_height ht vs) = map svg_width vs"
  by (cases vs) simp_all

lemma rotate_panel_box:
  "same_box p (rotate_panel env ht p) \<and> svg_widths (rotate_panel env ht p) = svg_widths p"
  by (simp add: same_box_def svg_widths_def rotate_panel_def set_first_height_widths comp_def)

lemma rotateAxisLabels_box:
  "same_box p (snd (state_of (rotateAxisLabels env self p)))
   \<and> svg_widths (snd (state_of (rotateAxisLabels env self p))) = svg_widths p"
proof -
  have "snd (state_of (rotateAxisLabels env self p)) = p
      \<or> (\<exists>ht. snd (state_of (rotateAxisLabels env self p)) = rotate_panel env ht p)"
    by (auto simp: rotateAxisLabels_def Let_def split: option.splits jsnum.splits)
  then show ?thesis
    using rotate_panel_box [of p env] by (auto simp: same_box_def)
qed

lemma rotateAxisLabels_keeps:
  "ordered (fst (state_of (rotateAxisLabels env self p))) = ordered self
   \<and> xScale (fst (state_of (rotateAxisLabels env self p))) = xScale self
   \<and> el (fst (state_of (rotateAxisLabels env self p))) = el self"
  by (simp add: rotateAxisLabels_def Let_def split: option.splits jsnum.splits)

lemma rotateAxisLabels_returns:
  "xScale self = ScaleFunction s \<Longrightarrow> kind s = Ordinal \<Longrightarrow>
   returned (rotateAxisLabels env self p)"
  by (simp add: rotateAxisLabels_def rangeBand_call_def Let_def split: option.splits jsnum.splits)

lemma filterAxisLabels_box:
  "same_box p (snd (state_of (filterAxisLabels env self p)))
   \<and> svg_widths (snd (state_of (filterAxisLabels env self p))) = svg_widths p"
  by (simp add: filterAxisLabels_def same_box_def svg_widths_def filter_svgs_widths
      split: xscale_value.splits)

lemma filterAxisLabels_keeps:
  "fst (state_of (filterAxisLabels env self p)) = self"
  by (simp add: filterAxisLabels_def split: xscale_value.splits)

lemma filterAxisLabels_returns:
  "xScale self = ScaleFunction s \<Longrightarrow> returned (filterAxisLabels env self p)"
  by (simp add: filterAxisLabels_def)

lemma filterOrRotate_each_Cons:
  "filterOrRotate_each env self (p # ps) =
     (let r = (if not_ordered (ordered self) then rotateAxisLabels env self p
               else filterAxisLabels env self p)
      in if returned r
         then (case filterOrRotate_each env (fst (state_of r)) ps of
                 Threw e (self2, ps1) \<Rightarrow> Threw e (self2, snd (state_of r) # ps1)
               | Returned (self2, ps1) \<Rightarrow> Returned (self2, snd (state_of r) # ps1))
         else Threw (the (thrown r)) (fst (state_of r), snd (state_of r) # ps))"
proof (cases "if not_ordered (ordered self) then rotateAxisLabels env self p
              else filterAxisLabels env self p")
  case (Returned x)
  then show ?thesis
    by (cases x) (simp add: Let_def split: outcome.splits prod.splits)
next
  case (Threw e x)
  then show ?thesis
    by (cases x) (simp add: Let_def split: outcome.splits prod.splits)
qed

lemma filterOrRotate_each_panels:
  "list_all2 (\<lambda>p q. same_box p q \<and> svg_widths q = svg_widths p)
     ps (snd (state_of (filterOrRotate_each env self ps)))"
proof (induction ps arbitrary: self)
  case Nil
  then show ?case by simp
next
  case (Cons p ps)
  have refl: "list_all2 (\<lambda>p q. same_box p q \<and> svg_widths q = svg_widths p) ps ps"
    by (simp add: list_all2_same same_box_def)
  define r where "r = (if not_ordered (ordered self) then rotateAxisLabels env self p
               else filterAxisLabels env self p)"
  have box: "same_box p (snd (state_of r)) \<and> svg_widths (snd (state_of r)) = svg_widths p"
    using rotateAxisLabels_box [of p env self] filterAxisLabels_box [of p env self]
    by (simp add: r_def)
  show ?case
    using Cons [of "fst (state_of r)"] refl box
    by (simp add: filterOrRotate_each_Cons cons_case_proj Let_def r_def [symmetric]
        del: filterOrRotate_each.simps(2))
qed

lemma filterOrRotate_each_filter_keeps:
  "\<not> not_ordered (ordered self) \<Longrightarrow>
   fst (state_of (filterOrRotate_each env self ps)) = self"
proof (induction ps)
  case Nil
  then show ?case by simp
next
  case (Cons p ps)
  then show ?case
    by (simp add: filterOrRotate_each_Cons cons_case_proj Let_def filterAxisLabels_keeps
        del: filterOrRotate_each.simps(2))
qed

lemma filterOrRotate_each_el:
  "el (fst (state_of (filterOrRotate_each env self ps))) = el self"
proof (induction ps arbitrary: self)
  case Nil
  then show ?case by simp
next
  case (Cons p ps)
  show ?case
    using Cons [of "fst (state_of (rotateAxisLabels env self p))"]
      Cons [of "fst (state_of (filterAxisLabels env self p))"]
    by (simp add: filterOrRotate_each_Cons cons_case_proj Let_def filterAxisLabels_keeps
        rotateAxisLabels_keeps del: filterOrRotate_each.simps(2))
qed

lemma filterOrRotate_each_returns:
  "xScale self = ScaleFunction s \<Longrightarrow> (not_ordered (ordered self) \<Longrightarrow> kind s = Ordinal) \<Longrightarrow>
   returned (filterOrRotate_each env self ps)"
proof (induction ps arbitrary: self)
  case Nil
  then show ?case by simp
next
  case (Cons p ps)
  show ?case
  proof (cases "not_ordered (ordered self)")
    case True
    with Cons.prems have k: "kind s = Ordinal" by simp
    have "returned (filterOrRotate_each env (fst (state_of (rotateAxisLabels env self p))) ps)"
      using Cons.prems(1) k by (intro Cons.IH) (simp_all add: rotateAxisLabels_keeps)
    with True rotateAxisLabels_returns [OF Cons.prems(1) k, of env p] show ?thesis
      by (simp add: filterOrRotate_each_Cons cons_case_proj Let_def
          del: filterOrRotate_each.simps(2))
  next
    case False
    have "returned (filterOrRotate_each env self ps)"
      using Cons.prems False by (intro Cons.IH) simp_all
    with False filterAxisLabels_returns [OF Cons.prems(1), of env p] show ?thesis
      by (simp add: filterOrRotate_each_Cons cons_case_proj Let_def filterAxisLabels_keeps
          del: filterOrRotate_each.simps(2))
  qed
qed


section \<open>A render pass\<close>

lemma with_panels_simps [simp]:
  "panels (el (with_panels self ps)) = ps"
  "wrapper_width (el (with_panels self ps)) = wrapper_width (el self)"
  "attr (with_panels self ps) = attr self"
  "ordered (with_panels self ps) = ordered self"
  "xScale (with_panels self ps) = xScale self"
  "xValues (with_panels self ps) = xValues self"
  by (simp_all add: with_panels_def)

lemma filterOrRotate_proj:
  "state_of (filterOrRotate env self) =
     with_panels (fst (state_of (filterOrRotate_each env self (panels (el self)))))
       (snd (state_of (filterOrRotate_each env self (panels (el self)))))"
  "returned (filterOrRotate env self) = returned (filterOrRotate_each env self (panels (el self)))"
  "thrown (filterOrRotate env self) = thrown (filterOrRotate_each env self (panels (el self)))"
  by (cases "filterOrRotate_each env self (panels (el self))";
      simp add: filterOrRotate_def split: prod.splits)+

lemma reset_simps [simp]:
  "isRotated (attr (reset self)) = False"
  "ordered (reset self) = ordered self"
  "xValues (reset self) = xValues self"
  "el (reset self) = el self"
  by (simp_all add: reset_def)

lemma render_unfold:
  "render env self =
     (if returned (drawn env self)
      then filterOrRotate env
             (with_panels (fst (state_of (drawn env self))) (snd (state_of (drawn env self))))
      else Threw (the (thrown (drawn env self)))
             (with_panels (fst (state_of (drawn env self))) (snd (state_of (drawn env self)))))"
  by (cases "drawn env self")
    (auto simp: render_def draw_def drawn_def reset_def Let_def split: prod.splits)

lemma drawn_keeps:
  "attr (fst (state_of (drawn env self))) = attr (reset self)"
  "ordered (fst (state_of (drawn env self))) = ordered self"
  "xValues (fst (state_of (drawn env self))) = xValues self"
  "el (fst (state_of (drawn env self))) = el self"
  using draw_each_keeps [of env "wrapper_width (el self)" "length (panels (el self))"
      "reset self" "panels (el self)"]
  by (simp_all add: drawn_def)

lemma render_ordered_not_rotated:
  assumes "ordered self = Some ob"
  shows "isRotated (attr (state_of (render env self))) = False"
proof (cases "returned (drawn env self)")
  case True
  let ?s = "with_panels (fst (state_of (drawn env self))) (snd (state_of (drawn env self)))"
  have "\<not> not_ordered (ordered ?s)"
    using assms by (simp add: drawn_keeps not_ordered_def)
  then have "fst (state_of (filterOrRotate_each env ?s (panels (el ?s)))) = ?s"
    by (rule filterOrRotate_each_filter_keeps)
  with True show ?thesis
    by (simp add: render_unfold filterOrRotate_proj drawn_keeps)
next
  case False
  then show ?thesis
    by (simp add: render_unfold drawn_keeps)
qed

lemma render_wrapper_width:
  "wrapper_width (el (state_of (render env self))) = wrapper_width (el self)"
  by (simp add: render_unfold filterOrRotate_proj filterOrRotate_each_el drawn_keeps)

lemma appended_widths:
  "appended w p q \<Longrightarrow> svg_widths q = svg_widths p @ [w]"
proof -
  assume a: "appended w p q"
  then have "children q \<noteq> []"
    by (simp add: appended_def)
  then have "butlast (children q) @ [last (children q)] = children q"
    by (rule append_butlast_last_id)
  moreover from a have "butlast (children q) = children p"
    by (simp add: appended_def)
  ultimately have "children q = children p @ [last (children q)]"
    by simp
  then have "map svg_width (children q) = map svg_width (children p @ [last (children q)])"
    by simp
  with a show ?thesis by (simp add: svg_widths_def appended_def)
qed

lemma render_panels:
  "list_all2 (\<lambda>p q. same_box p q
       \<and> (svg_widths q = svg_widths p
          \<or> svg_widths q = svg_widths p
               @ [wrapper_width (el self) / real (length (panels (el self)))]))
     (panels (el self)) (panels (el (state_of (render env self))))"
proof -
  let ?w = "wrapper_width (el self) / real (length (panels (el self)))"
  let ?R = "\<lambda>p q. same_box p q \<and> (svg_widths q = svg_widths p \<or> svg_widths q = svg_widths p @ [?w])"
  have d: "list_all2 ?R (panels (el self)) (snd (state_of (drawn env self)))"
    using draw_each_panels [of "wrapper_width (el self)" "length (panels (el self))"
        "panels (el self)" env "reset self"]
    by (auto simp: drawn_def elim!: list_all2_mono dest: appended_widths)
  show ?thesis
  proof (cases "returned (drawn env self)")
    case True
    let ?s = "with_panels (fst (state_of (drawn env self))) (snd (state_of (drawn env self)))"
    have f: "list_all2 (\<lambda>p q. same_box p q \<and> svg_widths q = svg_widths p)
        (snd (state_of (drawn env self)))
        (snd (state_of (filterOrRotate_each env ?s (snd (state_of (drawn env self))))))"
      by (rule filterOrRotate_each_panels)
    have "list_all2 ?R (panels (el self))
        (snd (state_of (filterOrRotate_each env ?s (snd (state_of (drawn env self))))))"
      using d f by (rule list_all2_trans [rotated 1]) (auto simp: same_box_def)
    with True show ?thesis
      by (simp add: render_unfold filterOrRotate_proj)
  next
    case False
    with d show ?thesis by (simp add: render_unfold)
  qed
qed

lemma render_returned_panels:
  assumes "returned (render env self)"
  shows "list_all2 (\<lambda>p q. same_box p q
       \<and> svg_widths q = svg_widths p
            @ [wrapper_width (el self) / real (length (panels (el self)))])
     (panels (el self)) (panels (el (state_of (render env self))))"
proof -
  let ?w = "wrapper_width (el self) / real (length (panels (el self)))"
  let ?R = "\<lambda>p q. same_box p q \<and> svg_widths q = svg_widths p @ [?w]"
  from assms have r: "returned (drawn env self)"
    by (simp add: render_unfold split: if_splits)
  have d: "list_all2 ?R (panels (el self)) (snd (state_of (drawn env self)))"
    using draw_each_returned_panels [of env "wrapper_width (el self)"
        "length (panels (el self))" "reset self" "panels (el self)"] r
    by (auto simp: drawn_def elim!: list_all2_mono dest: appended_widths)
  let ?s = "with_panels (fst (state_of (drawn env self))) (snd (state_of (drawn env self)))"
  have f: "list_all2 (\<lambda>p q. same_box p q \<and> svg_widths q = svg_widths p)
      (snd (state_of (drawn env self)))
      (snd (state_of (filterOrRotate_each env ?s (snd (state_of (drawn env self))))))"
    by (rule filterOrRotate_each_panels)
  have "list_all2 ?R (panels (el self))
      (snd (state_of (filterOrRotate_each env ?s (snd (state_of (drawn env self))))))"
    using d f by (rule list_all2_trans [rotated 1]) (auto simp: same_box_def)
  with r show ?thesis
    by (simp add: render_unfold filterOrRotate_proj)
qed

lemma render_fails:
  assumes "i < length (panels (el self))"
    and "validateWidthandHeight env
           (wrapper_width (el self) / real (length (panels (el self))))
           (div_height (panels (el self) ! i))"
  shows "thrown (render env self) = Some DimensionError"
    and "panels (el (state_of (render env self))) ! i = panels (el self) ! i"
proof -
  from draw_each_fails [OF assms, of "reset self"]
  have t: "thrown (drawn env self) = Some DimensionError"
    and p: "snd (state_of (drawn env self)) ! i = panels (el self) ! i"
    by (simp_all add: drawn_def)
  from t have "\<not> returned (drawn env self)" by (simp add: returned_thrown)
  with t p show "thrown (render env self) = Some DimensionError"
    and "panels (el (state_of (render env self))) ! i = panels (el self) ! i"
    by (simp_all add: render_unfold)
qed

lemma render_returns:
  assumes "\<forall>p \<in> set (panels (el self)).
     \<not> validateWidthandHeight env
          (wrapper_width (el self) / real (length (panels (el self)))) (div_height p)"
  shows "returned (render env self)"
proof -
  let ?w = "wrapper_width (el self) / real (length (panels (el self)))"
  have r: "returned (drawn env self)"
    using draw_each_returns [OF assms, of "reset self"] by (simp add: drawn_def)
  let ?s = "with_panels (fst (state_of (drawn env self))) (snd (state_of (drawn env self)))"
  show ?thesis
  proof (cases "panels (el self) = []")
    case True
    then have "snd (state_of (drawn env self)) = []"
      by (simp add: drawn_def)
    with r show ?thesis
      by (simp add: render_unfold filterOrRotate_proj)
  next
    case False
    have sc: "xScale ?s = ScaleFunction (getXScale (reset self) (ordered self) ?w)"
      using draw_each_scale [of env "wrapper_width (el self)" "length (panels (el self))"
          "reset self" "panels (el self)"] r False
      by (simp add: drawn_def)
    have k: "not_ordered (ordered ?s) \<Longrightarrow>
        kind (getXScale (reset self) (ordered self) ?w) = Ordinal"
      by (cases "ordered self")
        (simp_all add: drawn_keeps not_ordered_def getXScale_kinds ordered_and_date_def)
    have "returned (filterOrRotate_each env ?s (panels (el ?s)))"
      using sc k by (rule filterOrRotate_each_returns)
    with r show ?thesis
      by (simp add: render_unfold filterOrRotate_proj)
  qed
qed

section \<open>Properties of a whole pass\<close>

lemma filterOrRotate_each_xScale:
  "xScale (fst (state_of (filterOrRotate_each env self ps))) = xScale self"
proof (induction ps arbitrary: self)
  case Nil
  then show ?case by simp
next
  case (Cons p ps)
  show ?case
    using Cons [of "fst (state_of (rotateAxisLabels env self p))"]
      Cons [of "fst (state_of (filterAxisLabels env self p))"]
    by (simp add: filterOrRotate_each_Cons cons_case_proj Let_def filterAxisLabels_keeps
        rotateAxisLabels_keeps del: filterOrRotate_each.simps(2))
qed

lemma draw_each_returned_valid:
  "returned (draw_each env W n self ps) \<Longrightarrow>
   \<forall>p \<in> set ps. \<not> validateWidthandHeight env (W / real n) (div_height p)"
proof (induction ps arbitrary: self)
  case Nil
  then show ?case by simp
next
  case (Cons p ps)
  from Cons.prems have v: "\<not> validateWidthandHeight env (W / real n) (div_height p)"
    by (simp add: draw_each_Cons del: draw_each.simps(2) split: if_splits)
  with Cons.prems have "returned (draw_each env W n (state_of (getXAxis self (W / real n))) ps)"
    by (simp add: draw_each_Cons cons_case_proj del: draw_each.simps(2))
  from Cons.IH [OF this] v show ?case by simp
qed

lemma render_returned_valid:
  assumes "returned (render env self)"
  shows "\<forall>p \<in> set (panels (el self)).
     \<not> validateWidthandHeight env
          (wrapper_width (el self) / real (length (panels (el self)))) (div_height p)"
proof -
  from assms have "returned (drawn env self)"
    by (simp add: render_unfold split: if_splits)
  then show ?thesis
    unfolding drawn_def by (rule draw_each_returned_valid)
qed

lemma render_scale:
  assumes "returned (render env self)" and "panels (el self) \<noteq> []"
  shows "xScale (state_of (render env self))
     = ScaleFunction (getXScale self (ordered self)
         (wrapper_width (el self) / real (length (panels (el self)))))"
proof -
  from assms have r: "returned (drawn env self)"
    by (simp add: render_unfold split: if_splits)
  have "xScale (fst (state_of (drawn env self)))
      = ScaleFunction (getXScale (reset self) (ordered self)
          (wrapper_width (el self) / real (length (panels (el self)))))"
    using draw_each_scale [of env "wrapper_width (el self)" "length (panels (el self))"
        "reset self" "panels (el self)"] r assms(2)
    by (simp add: drawn_def)
  with r show ?thesis
    by (simp add: render_unfold filterOrRotate_proj filterOrRotate_each_xScale
        getXScale_cong [of "reset self" self])
qed

lemma render_returns_again:
  assumes "returned (render env self)"
  shows "returned (render env (state_of (render env self)))"
proof (rule render_returns, rule ballI)
  fix q assume q: "q \<in> set (panels (el (state_of (render env self))))"
  let ?ps = "panels (el self)" and ?qs = "panels (el (state_of (render env self)))"
  have rel: "list_all2 (\<lambda>p q. same_box p q
       \<and> (svg_widths q = svg_widths p
          \<or> svg_widths q = svg_widths p @ [wrapper_width (el self) / real (length ?ps)]))
     ?ps ?qs"
    by (rule render_panels)
  then have len: "length ?qs = length ?ps"
    by (simp add: list_all2_lengthD)
  from q obtain i where i: "i < length ?qs" and qi: "q = ?qs ! i"
    by (auto simp: in_set_conv_nth)
  from rel i len have "same_box (?ps ! i) (?qs ! i)"
    by (simp add: list_all2_conv_all_nth)
  then have h: "div_height q = div_height (?ps ! i)"
    by (simp add: same_box_def qi)
  have "?ps ! i \<in> set ?ps" using i len by simp
  with render_returned_valid [OF assms] h len
  show "\<not> validateWidthandHeight env
          (wrapper_width (el (state_of (render env self))) / real (length ?qs)) (div_height q)"
    by (simp add: render_wrapper_width)
qed

lemma render_counts:
  assumes "returned (render env self)"
  shows "svg_counts (state_of (render env self)) = map Suc (svg_counts self)"
proof -
  let ?ps = "panels (el self)" and ?qs = "panels (el (state_of (render env self)))"
  have rel: "list_all2 (\<lambda>p q. same_box p q
       \<and> svg_widths q = svg_widths p @ [wrapper_width (el self) / real (length ?ps)])
     ?ps ?qs"
    using assms by (rule render_returned_panels)
  have "list_all2 (\<lambda>p q. length (children q) = Suc (length (children p))) ?ps ?qs"
  proof (rule list_all2_mono [OF rel])
    fix p q
    assume "same_box p q
       \<and> svg_widths q = svg_widths p @ [wrapper_width (el self) / real (length ?ps)]"
    then have "length (svg_widths q) = length (svg_widths p @ [wrapper_width (el self) / real (length ?ps)])"
      by simp
    then show "length (children q) = Suc (length (children p))"
      by (simp add: svg_widths_def)
  qed
  then have "map (\<lambda>q. length (children q)) ?qs = map (\<lambda>p. Suc (length (children p))) ?ps"
    by (simp add: list_all2_conv_all_nth list_eq_iff_nth_eq)
  then show ?thesis
    by (simp add: svg_counts_def comp_def)
qed

lemma draw_each_fails_from:
  "i < length ps \<Longrightarrow> validateWidthandHeight env (W / real n) (div_height (ps ! i)) \<Longrightarrow>
   thrown (draw_each env W n self ps) = Some DimensionError
   \<and> (\<forall>j. i \<le> j \<and> j < length ps \<longrightarrow>
         snd (state_of (draw_each env W n self ps)) ! j = ps ! j)"
proof (induction ps arbitrary: self i)
  case Nil
  then show ?case by simp
next
  case (Cons p ps)
  show ?case
  proof (cases "validateWidthandHeight env (W / real n) (div_height p)")
    case True
    then show ?thesis by (simp add: draw_each_Cons del: draw_each.simps(2))
  next
    case False
    with Cons.prems obtain k where k: "i = Suc k" by (cases i) auto
    with Cons.prems have "k < length ps"
      and "validateWidthandHeight env (W / real n) (div_height (ps ! k))" by simp_all
    from Cons.IH [OF this, of "state_of (getXAxis self (W / real n))"]
    have t: "thrown (draw_each env W n (state_of (getXAxis self (W / real n))) ps)
        = Some DimensionError"
      and rest: "\<And>j. k \<le> j \<Longrightarrow> j < length ps \<Longrightarrow>
        snd (state_of (draw_each env W n (state_of (getXAxis self (W / real n))) ps)) ! j
          = ps ! j"
      by simp_all
    have "snd (state_of (draw_each env W n self (p # ps))) ! j = (p # ps) ! j"
      if "i \<le> j" and "j < length (p # ps)" for j
    proof -
      from that k obtain m where m: "j = Suc m" by (cases j) auto
      with that k have "k \<le> m" and "m < length ps" by simp_all
      from rest [OF this] False m show ?thesis
        by (simp add: draw_each_Cons cons_case_proj del: draw_each.simps(2))
    qed
    with t False show ?thesis
      by (simp add: draw_each_Cons cons_case_proj del: draw_each.simps(2))
  qed
qed

lemma render_fails_from:
  assumes "i < length (panels (el self))"
    and "validateWidthandHeight env
           (wrapper_width (el self) / real (length (panels (el self))))
           (div_height (panels (el self) ! i))"
  shows "thrown (render env self) = Some DimensionError"
    and "\<forall>j. i \<le> j \<and> j < length (panels (el self)) \<longrightarrow>
           panels (el (state_of (render env self))) ! j = panels (el self) ! j"
proof -
  from draw_each_fails_from [OF assms, of "reset self"]
  have t: "thrown (drawn env self) = Some DimensionError"
    and p: "\<forall>j. i \<le> j \<and> j < length (panels (el self)) \<longrightarrow>
           snd (state_of (drawn env self)) ! j = panels (el self) ! j"
    by (simp_all add: drawn_def)
  from t have "\<not> returned (drawn env self)" by (simp add: returned_thrown)
  with t p show "thrown (render env self) = Some DimensionError"
    and "\<forall>j. i \<le> j \<and> j < length (panels (el self)) \<longrightarrow>
           panels (el (state_of (render env self))) ! j = panels (el self) ! j"
    by (simp_all add: render_unfold)
qed

lemma appended_count: "appended w p q \<Longrightarrow> length (children q) = Suc (length (children p))"
proof -
  assume "appended w p q"
  then have "length (svg_widths q) = length (svg_widths p @ [w])"
    by (simp add: appended_widths)
  then show ?thesis by (simp add: svg_widths_def)
qed

lemma svg_counts_children:
  "map children (panels (el a)) = map children (panels (el b)) \<Longrightarrow>
   svg_counts a = svg_counts b"
proof -
  assume "map children (panels (el a)) = map children (panels (el b))"
  then have "map length (map children (panels (el a)))
      = map length (map children (panels (el b)))"
    by simp
  then show ?thesis by (simp add: svg_counts_def comp_def)
qed

text \<open>
  C10.  After a render of a temporal axis (the ordering is present and marked as a date)
  \<^verbatim>\<open>isRotated\<close> is false, whatever it was before: draw resets it and the collision filter
  never writes it.  This holds when render returns, and also when it throws.
\<close>

theorem render_temporal_not_rotated:
  assumes "ordered self = Some ob" and "date ob"
  shows "isRotated (attr (state_of (render env self))) = False"
  using assms(1) by (rule render_ordered_not_rotated)

lemma sample_validate [simp]:
  "validateWidthandHeight sample_env w h = (\<not> (0 < w \<and> 0 < h))"
  by (simp add: sample_env_def spec_validateWidthandHeight_def)

lemma time_axis_returns: "returned (render sample_env time_axis)"
  by (rule render_returns) (simp add: time_axis_def)

theorem render_temporal_not_rotated_witness:
  "ordered time_axis
     = Some \<lparr>date = True, min_o = Number (Num 0), max_o = Number (Num 1000)\<rparr>
   \<and> date \<lparr>date = True, min_o = Number (Num 0), max_o = Number (Num 1000)\<rparr>
   \<and> isRotated (attr time_axis)
   \<and> returned (render sample_env time_axis)
   \<and> isRotated (attr (state_of (render sample_env time_axis))) = False"
proof -
  have o: "ordered time_axis
     = Some \<lparr>date = True, min_o = Number (Num 0), max_o = Number (Num 1000)\<rparr>"
    by (simp add: time_axis_def)
  have d: "date \<lparr>date = True, min_o = Number (Num 0), max_o = Number (Num 1000)\<rparr>"
    by simp
  have i: "isRotated (attr time_axis)"
    by (simp add: time_axis_def)
  from o d i time_axis_returns render_temporal_not_rotated [OF o d, of sample_env]
  show ?thesis by simp
qed

section \<open>Repeated rendering\<close>

text \<open>
  C3 as stated fails: render is not idempotent.  Rendering the temporal sample axis
  twice leaves two svg elements in its panel where one render leaves one, so the two
  final states differ.
\<close>

theorem render_twice_counterexample:
  "returned (render sample_env time_axis)
   \<and> returned (render sample_env (state_of (render sample_env time_axis)))
   \<and> svg_counts (state_of (render sample_env time_axis)) = [1]
   \<and> svg_counts (state_of (render sample_env (state_of (render sample_env time_axis)))) = [2]
   \<and> state_of (render sample_env (state_of (render sample_env time_axis)))
       \<noteq> state_of (render sample_env time_axis)"
proof -
  have r1: "returned (render sample_env time_axis)"
    by (rule time_axis_returns)
  have r2: "returned (render sample_env (state_of (render sample_env time_axis)))"
    using r1 by (rule render_returns_again)
  have c0: "svg_counts time_axis = [0]"
    by (simp add: svg_counts_def time_axis_def)
  have c1: "svg_counts (state_of (render sample_env time_axis)) = [1]"
    using render_counts [OF r1] c0 by simp
  have c2: "svg_counts (state_of (render sample_env (state_of (render sample_env time_axis)))) = [2]"
    using render_counts [OF r2] c1 by simp
  from c1 c2 have "state_of (render sample_env (state_of (render sample_env time_axis)))
       \<noteq> state_of (render sample_env time_axis)"
    by auto
  with r1 r2 c1 c2 show ?thesis by simp
qed

text \<open>
  C3, amended.  A render pass that returns appends exactly one svg, of the panel width
  of that pass, behind the svgs each panel had, and removes none.  So after a further
  pass that returns, whatever sizes it measures, every panel has two svgs more than
  before the first: the output of a pass is added to, not replaced.
\<close>

theorem render_appends:
  assumes "returned (render env self)"
  shows "svg_counts (state_of (render env self)) = map Suc (svg_counts self)
    \<and> list_all2 (\<lambda>p q. svg_widths q = svg_widths p
              @ [wrapper_width (el self) / real (length (panels (el self)))])
        (panels (el self)) (panels (el (state_of (render env self))))
    \<and> (\<forall>env2 again.
          map children (panels (el again))
            = map children (panels (el (state_of (render env self))))
          \<and> returned (render env2 again) \<longrightarrow>
          svg_counts (state_of (render env2 again))
            = map (\<lambda>n. Suc (Suc n)) (svg_counts self))"
proof (intro conjI allI impI)
  show c1: "svg_counts (state_of (render env self)) = map Suc (svg_counts self)"
    using assms by (rule render_counts)
  show "list_all2 (\<lambda>p q. svg_widths q = svg_widths p
              @ [wrapper_width (el self) / real (length (panels (el self)))])
        (panels (el self)) (panels (el (state_of (render env self))))"
    by (rule list_all2_mono [OF render_returned_panels [OF assms]]) simp
  fix env2 again
  assume a: "map children (panels (el again))
            = map children (panels (el (state_of (render env self))))
          \<and> returned (render env2 again)"
  then have same: "map children (panels (el again))
            = map children (panels (el (state_of (render env self))))"
    and r2: "returned (render env2 again)"
    by simp_all
  have "svg_counts again = svg_counts (state_of (render env self))"
    using same by (rule svg_counts_children)
  with c1 render_counts [OF r2]
  have "svg_counts (state_of (render env2 again)) = map Suc (map Suc (svg_counts self))"
    by simp
  then show "svg_counts (state_of (render env2 again))
            = map (\<lambda>n. Suc (Suc n)) (svg_counts self)"
    by (simp add: comp_def)
qed

theorem render_appends_witness:
  "returned (render sample_env (months_axis 120))
   \<and> svg_counts (months_axis 120) = [0]
   \<and> svg_counts (state_of (render sample_env (months_axis 120))) = [1]
   \<and> map div_height
        (panels (el (measured_again 95 (state_of (render sample_env (months_axis 120))))))
       = [95]
   \<and> returned (render sample_env
        (measured_again 95 (state_of (render sample_env (months_axis 120)))))
   \<and> svg_counts (state_of (render sample_env
        (measured_again 95 (state_of (render sample_env (months_axis 120)))))) = [2]"
proof -
  let ?s1 = "state_of (render sample_env (months_axis 120))"
  have r: "returned (render sample_env (months_axis 120))"
    by (rule render_returns) (simp add: months_axis_def)
  have c0: "svg_counts (months_axis 120) = [0]"
    by (simp add: svg_counts_def months_axis_def)
  note t = render_appends [OF r]
  from t c0 have c1: "svg_counts ?s1 = [1]" by simp
  then obtain q where q: "panels (el ?s1) = [q]"
    by (auto simp add: svg_counts_def map_eq_Cons_conv)
  have ww: "wrapper_width (el ?s1) = 120"
    by (simp add: render_wrapper_width months_axis_def)
  have h: "map div_height (panels (el (measured_again 95 ?s1))) = [95]"
    by (simp add: measured_again_def q)
  have r2: "returned (render sample_env (measured_again 95 ?s1))"
    by (rule render_returns) (simp add: measured_again_def q ww)
  have same: "map children (panels (el (measured_again 95 ?s1)))
      = map children (panels (el ?s1))"
    by (simp add: measured_again_def comp_def)
  have "svg_counts (state_of (render sample_env (measured_again 95 ?s1)))
      = map (\<lambda>n. Suc (Suc n)) (svg_counts (months_axis 120))"
    by (rule t [THEN conjunct2, THEN conjunct2, rule_format]) (simp add: same r2)
  with c0 have c2: "svg_counts (state_of (render sample_env (measured_again 95 ?s1))) = [2]"
    by simp
  from r c0 c1 h r2 c2 show ?thesis by blast
qed

section \<open>Panel width and validation\<close>

text \<open>
  C8 as stated fails in its last clause: a failing pass can leave a partial surface.  On
  the axis of two panels below, the second of height zero, the pass throws the dimension
  error at the second panel, after it has appended an svg to the first.
\<close>

theorem render_partial_counterexample:
  "validateWidthandHeight sample_env
     (wrapper_width (el two_panel_axis) / real (length (panels (el two_panel_axis))))
     (div_height (panels (el two_panel_axis) ! 1))
   \<and> thrown (render sample_env two_panel_axis) = Some DimensionError
   \<and> svg_counts two_panel_axis = [0, 0]
   \<and> svg_counts (state_of (render sample_env two_panel_axis)) = [1, 0]"
proof -
  let ?p0 = "\<lparr>div_width = 120, div_height = 20, children = []\<rparr>"
  let ?p1 = "\<lparr>div_width = 120, div_height = 0, children = []\<rparr>"
  have ps: "panels (el two_panel_axis) = [?p0, ?p1]"
    and ww: "wrapper_width (el two_panel_axis) = 240"
    by (simp_all add: two_panel_axis_def)
  have v: "validateWidthandHeight sample_env
     (wrapper_width (el two_panel_axis) / real (length (panels (el two_panel_axis))))
     (div_height (panels (el two_panel_axis) ! 1))"
    by (simp add: ps ww)
  have t: "thrown (render sample_env two_panel_axis) = Some DimensionError"
    by (rule render_fails_from(1) [of 1]) (simp_all add: ps ww)
  have c0: "svg_counts two_panel_axis = [0, 0]"
    by (simp add: svg_counts_def ps)
  let ?q0 = "state_of (append_svg sample_env
      (state_of (getXAxis (reset two_panel_axis) 120)) 120 (div_height ?p0) ?p0)"
  have d: "snd (state_of (drawn sample_env two_panel_axis)) = [?q0, ?p1]"
    by (simp add: drawn_def ps ww draw_each_Cons cons_case_proj del: draw_each.simps(2))
  have "appended 120 ?p0 ?q0"
    using append_svg_appended [of ?p0 sample_env "reset two_panel_axis" 120] by simp
  then have "length (children ?q0) = 1"
    using appended_count [of 120 ?p0 ?q0] by simp
  moreover have "\<not> returned (drawn sample_env two_panel_axis)"
    by (simp add: drawn_def ps ww draw_each_Cons cons_case_proj del: draw_each.simps(2))
  ultimately have "svg_counts (state_of (render sample_env two_panel_axis)) = [1, 0]"
    by (simp add: render_unfold svg_counts_def d)
  with v t c0 show ?thesis by blast
qed

text \<open>
  C8, amended.  Take a validation that throws on every width or height that is not
  strictly positive.  In a render pass over \<open>N\<close> panels the wrapper is measured once and
  every svg the pass appends has the width \<open>parentWidth / N\<close>; no svg is removed.  When
  the pass returns, every panel has got one such svg and the scale was built for that
  width; a pass over no panel returns.  If that width or the measured height of a panel
  is not strictly positive, the pass throws the dimension error, and that panel and
  every panel after it hold the svgs they held: nothing was appended to them.  Svgs
  appended to panels before it stay.
\<close>

theorem render_panel_width_validated:
  assumes validation: "\<forall>w h. w \<le> 0 \<or> h \<le> 0 \<longrightarrow> validateWidthandHeight env w h"
  shows "list_all2 (\<lambda>p q. svg_widths q = svg_widths p
            \<or> svg_widths q = svg_widths p
                 @ [wrapper_width (el self) / real (length (panels (el self)))])
        (panels (el self)) (panels (el (state_of (render env self))))
    \<and> (returned (render env self) \<longrightarrow>
         list_all2 (\<lambda>p q. svg_widths q = svg_widths p
              @ [wrapper_width (el self) / real (length (panels (el self)))])
           (panels (el self)) (panels (el (state_of (render env self))))
         \<and> (panels (el self) \<noteq> [] \<longrightarrow>
              xScale (state_of (render env self))
                = ScaleFunction (getXScale self (ordered self)
                    (wrapper_width (el self) / real (length (panels (el self)))))))
    \<and> (panels (el self) = [] \<longrightarrow> returned (render env self))
    \<and> (\<forall>i < length (panels (el self)).
          wrapper_width (el self) / real (length (panels (el self))) \<le> 0
          \<or> div_height (panels (el self) ! i) \<le> 0 \<longrightarrow>
          thrown (render env self) = Some DimensionError
          \<and> (\<forall>j. i \<le> j \<and> j < length (panels (el self)) \<longrightarrow>
                children (panels (el (state_of (render env self))) ! j)
                  = children (panels (el self) ! j)))"
proof (intro conjI allI impI)
  show "list_all2 (\<lambda>p q. svg_widths q = svg_widths p
            \<or> svg_widths q = svg_widths p
                 @ [wrapper_width (el self) / real (length (panels (el self)))])
        (panels (el self)) (panels (el (state_of (render env self))))"
    by (rule list_all2_mono [OF render_panels]) simp
next
  assume r: "returned (render env self)"
  show "list_all2 (\<lambda>p q. svg_widths q = svg_widths p
              @ [wrapper_width (el self) / real (length (panels (el self)))])
           (panels (el self)) (panels (el (state_of (render env self))))"
    by (rule list_all2_mono [OF render_returned_panels [OF r]]) simp
  assume "panels (el self) \<noteq> []"
  with r show "xScale (state_of (render env self))
                = ScaleFunction (getXScale self (ordered self)
                    (wrapper_width (el self) / real (length (panels (el self)))))"
    by (rule render_scale)
next
  assume "panels (el self) = []"
  then show "returned (render env self)"
    by (intro render_returns) simp
next
  fix i
  assume i: "i < length (panels (el self))"
    and bad: "wrapper_width (el self) / real (length (panels (el self))) \<le> 0
          \<or> div_height (panels (el self) ! i) \<le> 0"
  from bad validation have v: "validateWidthandHeight env
           (wrapper_width (el self) / real (length (panels (el self))))
           (div_height (panels (el self) ! i))"
    by blast
  show "thrown (render env self) = Some DimensionError"
    by (rule render_fails_from(1) [OF i v])
  fix j
  assume "i \<le> j \<and> j < length (panels (el self))"
  with render_fails_from(2) [OF i v]
  have "panels (el (state_of (render env self))) ! j = panels (el self) ! j"
    by blast
  then show "children (panels (el (state_of (render env self))) ! j)
      = children (panels (el self) ! j)"
    by simp
qed

theorem render_panel_width_validated_witness:
  "thrown (render sample_env two_panel_axis) = Some DimensionError
   \<and> children (panels (el (state_of (render sample_env two_panel_axis))) ! 1) = []
   \<and> returned (render sample_env (months_axis 120))
   \<and> map svg_widths (panels (el (state_of (render sample_env (months_axis 120))))) = [[120]]
   \<and> returned (render sample_env
         ((months_axis 120)\<lparr>el := \<lparr>wrapper_width = 120, panels = []\<rparr>\<rparr>))"
proof -
  let ?none = "(months_axis 120)\<lparr>el := \<lparr>wrapper_width = 120, panels = []\<rparr>\<rparr>"
  have v: "\<forall>w h. w \<le> 0 \<or> h \<le> 0 \<longrightarrow> validateWidthandHeight sample_env w h"
    by auto
  note t2 = render_panel_width_validated [OF v, of two_panel_axis]
  note t1 = render_panel_width_validated [OF v, of "months_axis 120"]
  have ps: "panels (el two_panel_axis)
      = [\<lparr>div_width = 120, div_height = 20, children = []\<rparr>,
         \<lparr>div_width = 120, div_height = 0, children = []\<rparr>]"
    by (simp add: two_panel_axis_def)
  from t2 have "(1::nat) < length (panels (el two_panel_axis)) \<longrightarrow>
      wrapper_width (el two_panel_axis) / real (length (panels (el two_panel_axis))) \<le> 0
          \<or> div_height (panels (el two_panel_axis) ! 1) \<le> 0 \<longrightarrow>
          thrown (render sample_env two_panel_axis) = Some DimensionError
          \<and> (\<forall>j. 1 \<le> j \<and> j < length (panels (el two_panel_axis)) \<longrightarrow>
                children (panels (el (state_of (render sample_env two_panel_axis))) ! j)
                  = children (panels (el two_panel_axis) ! j))"
    by blast
  then have a: "thrown (render sample_env two_panel_axis) = Some DimensionError
          \<and> children (panels (el (state_of (render sample_env two_panel_axis))) ! 1) = []"
    by (simp add: ps)
  have r: "returned (render sample_env (months_axis 120))"
    by (rule render_returns) (simp add: months_axis_def)
  have m: "panels (el (months_axis 120)) = [\<lparr>div_width = 120, div_height = 20, children = []\<rparr>]"
    "wrapper_width (el (months_axis 120)) = 120"
    by (simp_all add: months_axis_def)
  from t1 r have "list_all2 (\<lambda>p q. svg_widths q = svg_widths p
              @ [wrapper_width (el (months_axis 120)) / real (length (panels (el (months_axis 120))))])
           (panels (el (months_axis 120))) (panels (el (state_of (render sample_env (months_axis 120)))))"
    by blast
  then have "map svg_widths (panels (el (state_of (render sample_env (months_axis 120))))) = [[120]]"
    by (auto simp: m svg_widths_def list_all2_Cons1)
  moreover have "returned (render sample_env ?none)"
    by (rule render_panel_width_validated [OF v, of ?none,
          THEN conjunct2, THEN conjunct2, THEN conjunct1, rule_format]) simp
  ultimately show ?thesis using a r by simp
qed

section \<open>The guard of getXAxis\<close>

text \<open>
  C2 says that a scale which yields \<open>NaN\<close> when probed makes getXAxis raise, so that no
  axis is built or drawn.  The code at a temporal ordering without bounds: the scale
  yields \<open>NaN\<close> at every probe, getXAxis returns with the tick axis built (its guard reads
  the scale object, which is a function, and never a probed value), and render returns
  with one svg appended to the panel.
\<close>

theorem invalid_scale_not_detected:
  "getXScale unbounded_axis (ordered unbounded_axis) 500 = unbounded_scale
   \<and> d3_apply sample_env unbounded_scale (Number (Num 0)) = NaN
   \<and> d3_apply sample_env unbounded_scale Undefined = NaN
   \<and> getXAxis unbounded_axis 500 =
       Returned (unbounded_axis
         \<lparr>xScale := ScaleFunction unbounded_scale,
          xAxis := Some \<lparr>scale_a = ScaleFunction unbounded_scale, ticks_a = 10,
                         tickFormat = fmt_value, orient = ''bottom''\<rparr>\<rparr>)
   \<and> returned (render sample_env unbounded_axis)
   \<and> svg_counts (state_of (render sample_env unbounded_axis)) = [1]"
proof -
  have o: "ordered unbounded_axis = Some unbounded_ordering"
    by (simp add: unbounded_axis_def)
  have od: "ordered_and_date (Some unbounded_ordering) = True"
    by (simp add: ordered_and_date_def unbounded_ordering_def)
  have sc: "getXScale unbounded_axis (Some unbounded_ordering) 500 = unbounded_scale"
    by (simp add: getXScale_kinds od) (simp add: unbounded_scale_def unbounded_ordering_def)
  have p0: "d3_apply sample_env unbounded_scale (Number (Num 0)) = NaN"
    and p1: "d3_apply sample_env unbounded_scale Undefined = NaN"
    by (simp_all add: sample_env_def sample_apply_def unbounded_scale_def)
  have gx: "getXAxis unbounded_axis 500 =
       Returned (unbounded_axis
         \<lparr>xScale := ScaleFunction unbounded_scale,
          xAxis := Some \<lparr>scale_a = ScaleFunction unbounded_scale, ticks_a = 10,
                         tickFormat = fmt_value, orient = ''bottom''\<rparr>\<rparr>)"
    by (simp add: getXAxis_def o sc Let_def)
      (simp add: unbounded_axis_def time_axis_def)
  have r1: "returned (render sample_env unbounded_axis)"
    by (rule render_returns) (simp add: unbounded_axis_def time_axis_def)
  have "svg_counts unbounded_axis = [0]"
    by (simp add: svg_counts_def unbounded_axis_def time_axis_def)
  with render_counts [OF r1] r1
  have r: "returned (render sample_env unbounded_axis)
      \<and> svg_counts (state_of (render sample_env unbounded_axis)) = [1]"
    by simp
  from o sc p0 p1 gx r show ?thesis by simp
qed

end
